theory Spec2Isabelle
  imports Complex_Main "HOL-Library.Multiset"
begin

section \<open>The relational store\<close>

text \<open>
  The handlers of \<^verbatim>\<open>src/index.js\<close> keep all their state in PostgreSQL tables. A table
  is a list of rows in insertion order, a row is a record with the columns the handlers
  read or write, and the database is the record of the tables. Identifiers (uuid or
  integer columns) are natural numbers. A column \<^verbatim>\<open>DEFAULT gen_random_uuid()\<close> takes an
  identifier that no row of the table carries yet.
\<close>

type_synonym uuid = nat

record student =
  student_id :: uuid
  registration_number :: string
  student_name :: string

record unit_row =
  unit_id :: uuid
  unit_name :: string
  unit_code :: string

text \<open>
  \<^verbatim>\<open>allocated_units.status\<close> is constrained by a CHECK to the three values
  \<^verbatim>\<open>'allocated'\<close>, \<^verbatim>\<open>'registered'\<close>, \<^verbatim>\<open>'cancelled'\<close>.
\<close>

datatype alloc_status = Allocated | Registered | Cancelled

record allocated_unit =
  au_id :: uuid
  au_student_id :: uuid
  au_unit_id :: uuid
  au_semester :: int
  au_academic_year :: string
  au_status :: alloc_status
  au_notes :: "string option"

record registered_unit =
  ru_id :: uuid
  ru_student_id :: uuid
  ru_unit_name :: string
  ru_unit_code :: string
  ru_status :: string

text \<open>
  \<^verbatim>\<open>fees.fee_balance\<close> is a \<^verbatim>\<open>numeric\<close> column, an exact decimal. A row of
  \<^verbatim>\<open>student_documents\<close> carries the registration number as plain text: the table has no
  foreign key. \<^verbatim>\<open>uploaded_at\<close> is a point in time, in milliseconds.
\<close>

record fee_row =
  fee_student_id :: uuid
  fee_balance :: rat

record student_document =
  doc_id :: uuid
  doc_registration_number :: string
  doc_document_type :: string
  doc_file_url :: string
  doc_file_name :: string
  doc_file_size :: nat
  doc_uploaded_at :: nat

record database =
  students :: "student list"
  units :: "unit_row list"
  allocated_units :: "allocated_unit list"
  registered_units :: "registered_unit list"
  fees :: "fee_row list"
  student_documents :: "student_document list"

text \<open>
  What the driver raises when a statement fails; \<open>message\<close> is \<^verbatim>\<open>error.message\<close>. The
  violations are those of the server (the relation, then the constraint); \<open>OutOfRange\<close> is
  a number that an \<^verbatim>\<open>integer\<close> column or comparison does not take; \<open>UndefinedValue\<close> is
  the driver's own refusal of a query that has \<^verbatim>\<open>undefined\<close> among its parameters, raised
  before anything is sent.
\<close>

datatype db_error =
    UniqueViolation string
  | CheckViolation string string
  | ForeignKeyViolation string string
  | OutOfRange int
  | UndefinedValue
  | DriverError string

definition digit_char :: "nat \<Rightarrow> char" where
  "digit_char d = ''0123456789'' ! d"

text \<open>The decimal numeral a template literal renders a number with.\<close>

fun decimal :: "nat \<Rightarrow> string" where
  "decimal n = (if n < 10 then [digit_char n] else decimal (n div 10) @ [digit_char (n mod 10)])"

declare decimal.simps [simp del]

definition quoted :: "string \<Rightarrow> string" where
  "quoted s = CHR 0x22 # s @ [CHR 0x22]"

fun message :: "db_error \<Rightarrow> string" where
  "message (UniqueViolation c) = ''duplicate key value violates unique constraint '' @ quoted c"
| "message (CheckViolation r c) =
     ''new row for relation '' @ quoted r @ '' violates check constraint '' @ quoted c"
| "message (ForeignKeyViolation r c) =
     ''insert or update on table '' @ quoted r @ '' violates foreign key constraint '' @ quoted c"
| "message (OutOfRange v) =
     ''value '' @ quoted ((if v < 0 then ''-'' else []) @ decimal (nat \<bar>v\<bar>))
       @ '' is out of range for type integer''"
| "message UndefinedValue = ''UNDEFINED_VALUE: Undefined values are not allowed''"
| "message (DriverError m) = m"

definition fresh_id :: "uuid list \<Rightarrow> uuid" where
  "fresh_id ids = Suc (fold max ids 0)"

section \<open>Registering an allocated unit\<close>

text \<open>
  \<^verbatim>\<open>POST /students/registration/:regNumber/register-allocated-unit\<close>. The two writes run
  inside \<^verbatim>\<open>sql.begin\<close>; each may raise (\<open>tx_faults\<close> says which, \<open>None\<close> for a statement
  that executes). A callback that raises makes \<^verbatim>\<open>sql.begin\<close> roll back and re-raise: the
  caller keeps the database it had.
\<close>

record tx_faults =
  update_fault :: "db_error option"
  insert_fault :: "db_error option"

datatype register_response =
    RegisterOk registered_unit string
  | RegisterError nat string string

definition select_student_by_reg :: "database \<Rightarrow> string \<Rightarrow> student list" where
  "select_student_by_reg db regNumber =
     filter (\<lambda>s. registration_number s = regNumber) (students db)"

text \<open>
  \<^verbatim>\<open>SELECT au.*, u.unit_name, u.unit_code FROM allocated_units au JOIN units u
  ON au.unit_id = u.id WHERE au.id = $1 AND au.student_id = $2 AND au.status = 'allocated'\<close>
\<close>

definition select_allocated_join ::
  "database \<Rightarrow> uuid \<Rightarrow> uuid \<Rightarrow> (allocated_unit \<times> unit_row) list" where
  "select_allocated_join db aid sid =
     concat (map (\<lambda>a. map (Pair a) (filter (\<lambda>u. au_unit_id a = unit_id u) (units db)))
       (filter (\<lambda>a. au_id a = aid \<and> au_student_id a = sid \<and> au_status a = Allocated)
          (allocated_units db)))"

definition select_registered :: "database \<Rightarrow> uuid \<Rightarrow> string \<Rightarrow> registered_unit list" where
  "select_registered db sid code =
     filter (\<lambda>r. ru_student_id r = sid \<and> ru_unit_code r = code) (registered_units db)"

definition update_allocated_status ::
  "db_error option \<Rightarrow> uuid \<Rightarrow> alloc_status \<Rightarrow> database \<Rightarrow> db_error + database" where
  "update_allocated_status fault aid st db =
     (case fault of
        Some e \<Rightarrow> Inl e
      | None \<Rightarrow> Inr (db\<lparr>allocated_units :=
          map (\<lambda>a. if au_id a = aid then a\<lparr>au_status := st\<rparr> else a) (allocated_units db)\<rparr>))"

definition insert_registered_unit ::
  "db_error option \<Rightarrow> uuid \<Rightarrow> string \<Rightarrow> string \<Rightarrow> string \<Rightarrow> database
     \<Rightarrow> db_error + registered_unit \<times> database" where
  "insert_registered_unit fault sid name code st db =
     (case fault of
        Some e \<Rightarrow> Inl e
      | None \<Rightarrow>
          (let row = \<lparr>ru_id = fresh_id (map ru_id (registered_units db)), ru_student_id = sid,
                      ru_unit_name = name, ru_unit_code = code, ru_status = st\<rparr>
           in Inr (row, db\<lparr>registered_units := registered_units db @ [row]\<rparr>)))"

text \<open>
  The callback handed to \<^verbatim>\<open>sql.begin\<close>: the UPDATE, then the INSERT, whose
  \<^verbatim>\<open>RETURNING *\<close> row is the registered unit of the response.
\<close>

definition register_transaction ::
  "tx_faults \<Rightarrow> uuid \<Rightarrow> uuid \<Rightarrow> unit_row \<Rightarrow> database \<Rightarrow> db_error + registered_unit \<times> database" where
  "register_transaction faults aid sid u db =
     (case update_allocated_status (update_fault faults) aid Registered db of
        Inl e \<Rightarrow> Inl e
      | Inr db1 \<Rightarrow>
          insert_registered_unit (insert_fault faults) sid (unit_name u) (unit_code u)
            ''registered'' db1)"

definition register_allocated_unit ::
  "tx_faults \<Rightarrow> database \<Rightarrow> string \<Rightarrow> uuid option \<Rightarrow> register_response \<times> database" where
  "register_allocated_unit faults db regNumber allocated_unit_id =
     (case allocated_unit_id of
        None \<Rightarrow> (RegisterError 400 ''Missing required fields'' ''allocated_unit_id is required'', db)
      | Some aid \<Rightarrow>
     (case select_student_by_reg db regNumber of
        [] \<Rightarrow> (RegisterError 404 ''Student not found''
                 ''No student found with the provided registration number'', db)
      | student # _ \<Rightarrow>
     (case select_allocated_join db aid (student_id student) of
        [] \<Rightarrow> (RegisterError 404 ''Allocated unit not found''
                 ''No allocated unit found with the provided ID for this student, or unit is already registered/cancelled'', db)
      | (allocatedUnit, u) # _ \<Rightarrow>
     (case select_registered db (student_id student) (unit_code u) of
        _ # _ \<Rightarrow> (RegisterError 409 ''Unit already registered''
                    ''Student is already registered for this unit'', db)
      | [] \<Rightarrow>
     (case register_transaction faults aid (student_id student) u db of
        Inl e \<Rightarrow> (RegisterError 500 ''Failed to register allocated unit'' (message e), db)
      | Inr (registeredUnit, db') \<Rightarrow>
          (RegisterOk registeredUnit (registration_number student), db'))))))"

definition no_faults :: tx_faults where
  "no_faults = \<lparr>update_fault = None, insert_fault = None\<rparr>"

section \<open>Bulk allocation\<close>

text \<open>
  \<^verbatim>\<open>POST /students/registration/:regNumber/allocate-units\<close>. The request body is
  destructured with defaults: \<^verbatim>\<open>semester = 1\<close>, \<^verbatim>\<open>academic_year = '2024/2025'\<close>; an
  absent field is \<open>None\<close>. \<open>unit_ids\<close> is \<open>None\<close> when the field is absent or not an array.
  \<^verbatim>\<open>notes\<close> has no default: it is \<^verbatim>\<open>undefined\<close> when the field is absent, and \<^verbatim>\<open>null\<close>
  or a text otherwise. The unit ids and the semester are numbers, the academic year is a
  text.
\<close>

datatype notes_value = NotesUndefined | NotesNull | NotesText string

record allocation_body =
  unit_ids :: "nat list option"
  semester :: "int option"
  academic_year :: "string option"
  body_notes :: notes_value

definition semester_of :: "allocation_body \<Rightarrow> int" where
  "semester_of body = (case semester body of None \<Rightarrow> 1 | Some v \<Rightarrow> v)"

definition academic_year_of :: "allocation_body \<Rightarrow> string" where
  "academic_year_of body = (case academic_year body of None \<Rightarrow> ''2024/2025'' | Some v \<Rightarrow> v)"

text \<open>
  The strings pushed onto \<^verbatim>\<open>errors\<close> by the two refusals of a pass, by their template:
  \<^verbatim>\<open>Unit with ID ${unit_id} not found\<close> and
  \<^verbatim>\<open>Unit ${unit.unit_code} already allocated for this semester\<close>.
  An element of \<^verbatim>\<open>allocatedUnits\<close> is the inserted row with the unit's name and code.
\<close>

datatype item_error =
    UnitNotFound nat
  | AlreadyAllocated string

type_synonym allocation_entry = "allocated_unit \<times> string \<times> string"

record summary =
  total_requested :: nat
  successfully_allocated :: nat
  summary_errors :: nat

datatype allocate_response =
    AllocateOk student "allocation_entry list" summary "item_error list option"
  | AllocateError nat string string

definition select_student_by_id :: "database \<Rightarrow> uuid \<Rightarrow> student list" where
  "select_student_by_id db sid = filter (\<lambda>s. student_id s = sid) (students db)"

text \<open>
  The three statements of a pass. \<^verbatim>\<open>allocated_units.unit_id\<close> and
  \<^verbatim>\<open>allocated_units.semester\<close> are \<^verbatim>\<open>integer\<close> columns
  (\<^verbatim>\<open>src/migrations/create_password_trigger.sql\<close>), and \<^verbatim>\<open>unit_id\<close> references
  \<^verbatim>\<open>units(id)\<close>: a statement that is handed a number outside the 32 bits of the type
  raises.
\<close>

definition int4 :: "int \<Rightarrow> bool" where
  "int4 v \<longleftrightarrow> - 2147483648 \<le> v \<and> v \<le> 2147483647"

text \<open>\<^verbatim>\<open>SELECT id, unit_name, unit_code FROM units WHERE id = ${unit_id}\<close>\<close>

definition select_unit :: "database \<Rightarrow> nat \<Rightarrow> db_error + unit_row list" where
  "select_unit db uid =
     (if int4 (int uid) then Inr (filter (\<lambda>u. unit_id u = uid) (units db))
      else Inl (OutOfRange (int uid)))"

text \<open>
  \<^verbatim>\<open>SELECT id FROM allocated_units WHERE student_id = .. AND unit_id = .. AND semester = ..
  AND academic_year = .. AND status != 'cancelled'\<close>
\<close>

definition select_existing_allocation ::
  "database \<Rightarrow> uuid \<Rightarrow> nat \<Rightarrow> int \<Rightarrow> string \<Rightarrow> db_error + allocated_unit list" where
  "select_existing_allocation db sid uid sem yr =
     (if \<not> int4 (int uid) then Inl (OutOfRange (int uid))
      else if \<not> int4 sem then Inl (OutOfRange sem)
      else Inr (filter (\<lambda>a. au_student_id a = sid \<and> au_unit_id a = uid \<and> au_semester a = sem
                   \<and> au_academic_year a = yr \<and> au_status a \<noteq> Cancelled) (allocated_units db)))"

text \<open>
  The INSERT into \<^verbatim>\<open>allocated_units\<close>, with \<^verbatim>\<open>${notes}\<close> as its last parameter: the driver
  refuses the query when \<^verbatim>\<open>notes\<close> is \<^verbatim>\<open>undefined\<close>. The server applies the constraints of
  the table (\<^verbatim>\<open>src/migrations/create_password_trigger.sql\<close>): the CHECK on \<^verbatim>\<open>semester\<close>,
  \<^verbatim>\<open>CONSTRAINT unique_student_unit_semester UNIQUE (student_id, unit_id, semester, academic_year)\<close>,
  which does not look at \<^verbatim>\<open>status\<close>, and the two foreign keys. A violated constraint
  raises; otherwise the row is appended with status \<^verbatim>\<open>'allocated'\<close> and returned
  (\<^verbatim>\<open>RETURNING *\<close>).
\<close>

definition stored_notes :: "notes_value \<Rightarrow> string option" where
  "stored_notes nt = (case nt of NotesText t \<Rightarrow> Some t | _ \<Rightarrow> None)"

definition insert_allocated_unit ::
  "database \<Rightarrow> uuid \<Rightarrow> nat \<Rightarrow> int \<Rightarrow> string \<Rightarrow> notes_value
     \<Rightarrow> db_error + allocated_unit \<times> database" where
  "insert_allocated_unit db sid uid sem yr nt =
     (if nt = NotesUndefined then Inl UndefinedValue
      else if \<not> int4 (int uid) then Inl (OutOfRange (int uid))
      else if \<not> int4 sem then Inl (OutOfRange sem)
      else if sem \<noteq> 1 \<and> sem \<noteq> 2
        then Inl (CheckViolation ''allocated_units'' ''allocated_units_semester_check'')
      else if filter (\<lambda>a. au_student_id a = sid \<and> au_unit_id a = uid \<and> au_semester a = sem
                            \<and> au_academic_year a = yr) (allocated_units db) \<noteq> []
        then Inl (UniqueViolation ''unique_student_unit_semester'')
      else if select_student_by_id db sid = []
        then Inl (ForeignKeyViolation ''allocated_units'' ''allocated_units_student_id_fkey'')
      else if filter (\<lambda>u. unit_id u = uid) (units db) = []
        then Inl (ForeignKeyViolation ''allocated_units'' ''allocated_units_unit_id_fkey'')
      else
        (let row = \<lparr>au_id = fresh_id (map au_id (allocated_units db)), au_student_id = sid,
                    au_unit_id = uid, au_semester = sem, au_academic_year = yr,
                    au_status = Allocated, au_notes = stored_notes nt\<rparr>
         in Inr (row, db\<lparr>allocated_units := allocated_units db @ [row]\<rparr>)))"

text \<open>
  One pass through the body of \<^verbatim>\<open>for (const unit_id of unit_ids)\<close>. A pass in which no
  statement raises ends in one push, onto \<^verbatim>\<open>errors\<close> (\<open>Inl\<close>) or onto \<^verbatim>\<open>allocatedUnits\<close>
  (\<open>Inr\<close>). A statement that raises is caught by the \<^verbatim>\<open>catch (unitError)\<close> of the pass,
  which pushes \<^verbatim>\<open>Failed to allocate unit ...\<close> and lets the loop go on; but the statement
  ran on the transaction of \<^verbatim>\<open>sql.begin\<close>, and the driver keeps the error of the first
  query of a transaction that fails: when the callback returns, \<^verbatim>\<open>sql.begin\<close> rolls back
  and rejects with that error, whatever the callback did with it. The outer \<^verbatim>\<open>catch\<close> of
  the handler then answers 500 from that error alone, and neither array reaches the
  response. So a pass with a raising statement is the end of the call: the pass gives the
  error (the outer \<open>Inl\<close>), and the loop stops there with it.
\<close>

definition allocate_unit ::
  "database \<Rightarrow> uuid \<Rightarrow> int \<Rightarrow> string \<Rightarrow> notes_value \<Rightarrow> nat
     \<Rightarrow> db_error + (item_error + allocation_entry) \<times> database" where
  "allocate_unit db studentId sem yr nt uid =
     (case select_unit db uid of
        Inl unitError \<Rightarrow> Inl unitError
      | Inr [] \<Rightarrow> Inr (Inl (UnitNotFound uid), db)
      | Inr (u # _) \<Rightarrow>
          (case select_existing_allocation db studentId uid sem yr of
             Inl unitError \<Rightarrow> Inl unitError
           | Inr (_ # _) \<Rightarrow> Inr (Inl (AlreadyAllocated (unit_code u)), db)
           | Inr [] \<Rightarrow>
               (case insert_allocated_unit db studentId uid sem yr nt of
                  Inl unitError \<Rightarrow> Inl unitError
                | Inr (insertedRow, db') \<Rightarrow>
                    Inr (Inr (insertedRow, unit_name u, unit_code u), db'))))"

fun allocate_loop ::
  "database \<Rightarrow> uuid \<Rightarrow> int \<Rightarrow> string \<Rightarrow> notes_value \<Rightarrow> nat list
     \<Rightarrow> allocation_entry list \<Rightarrow> item_error list
     \<Rightarrow> db_error + database \<times> allocation_entry list \<times> item_error list" where
  "allocate_loop db studentId sem yr nt [] allocatedUnits errors =
     Inr (db, allocatedUnits, errors)"
| "allocate_loop db studentId sem yr nt (uid # rest) allocatedUnits errors =
     (case allocate_unit db studentId sem yr nt uid of
        Inl unitError \<Rightarrow> Inl unitError
      | Inr (Inl err, db') \<Rightarrow>
          allocate_loop db' studentId sem yr nt rest allocatedUnits (errors @ [err])
      | Inr (Inr entry, db') \<Rightarrow>
          allocate_loop db' studentId sem yr nt rest (allocatedUnits @ [entry]) errors)"

text \<open>
  The handler. When \<^verbatim>\<open>sql.begin\<close> rejects, the outer \<^verbatim>\<open>catch\<close> answers 500 with the
  message of the error, and the database is the one before the call: the transaction was
  rolled back. Otherwise the transaction commits and the answer is 200 with both arrays.
\<close>

definition allocate_units ::
  "database \<Rightarrow> string \<Rightarrow> allocation_body \<Rightarrow> allocate_response \<times> database" where
  "allocate_units db regNumber body =
     (case select_student_by_reg db regNumber of
        [] \<Rightarrow> (AllocateError 404 ''Student not found''
                 ''No student found with the provided registration number'', db)
      | studentRow # _ \<Rightarrow>
     (case unit_ids body of
        None \<Rightarrow> (AllocateError 400 ''Missing required fields''
                   ''unit_ids array is required and cannot be empty'', db)
      | Some [] \<Rightarrow> (AllocateError 400 ''Missing required fields''
                      ''unit_ids array is required and cannot be empty'', db)
      | Some ids \<Rightarrow>
     (case select_student_by_id db (student_id studentRow) of
        [] \<Rightarrow> (AllocateError 404 ''Student not found'' ''No student found with the provided ID'', db)
      | student # _ \<Rightarrow>
          (case allocate_loop db (student_id studentRow) (semester_of body) (academic_year_of body)
                  (body_notes body) ids [] [] of
             Inl txError \<Rightarrow>
               (AllocateError 500 ''Failed to allocate units'' (message txError), db)
           | Inr (db', allocatedUnits, errors) \<Rightarrow>
               (AllocateOk student allocatedUnits
                  \<lparr>total_requested = length ids,
                   successfully_allocated = length allocatedUnits,
                   summary_errors = length errors\<rparr>
                  (if errors \<noteq> [] then Some errors else None), db')))))"

text \<open>
  The outcomes of the passes over \<^verbatim>\<open>unit_ids\<close>, one for each element and in its order,
  or the error of the first statement that raises; the two arrays of the response are
  compared with it.
\<close>

fun allocation_outcomes ::
  "database \<Rightarrow> uuid \<Rightarrow> int \<Rightarrow> string \<Rightarrow> notes_value \<Rightarrow> nat list
     \<Rightarrow> db_error + (item_error + allocation_entry) list" where
  "allocation_outcomes db studentId sem yr nt [] = Inr []"
| "allocation_outcomes db studentId sem yr nt (uid # rest) =
     (case allocate_unit db studentId sem yr nt uid of
        Inl unitError \<Rightarrow> Inl unitError
      | Inr (out, db') \<Rightarrow>
          (case allocation_outcomes db' studentId sem yr nt rest of
             Inl unitError \<Rightarrow> Inl unitError
           | Inr outs \<Rightarrow> Inr (out # outs)))"

fun pushed_entries :: "(item_error + allocation_entry) list \<Rightarrow> allocation_entry list" where
  "pushed_entries [] = []"
| "pushed_entries (Inl err # outs) = pushed_entries outs"
| "pushed_entries (Inr entry # outs) = entry # pushed_entries outs"

fun pushed_errors :: "(item_error + allocation_entry) list \<Rightarrow> item_error list" where
  "pushed_errors [] = []"
| "pushed_errors (Inl err # outs) = err # pushed_errors outs"
| "pushed_errors (Inr entry # outs) = pushed_errors outs"

text \<open>
  An outcome speaks about the unit id \<open>uid\<close> of a request of student \<open>sid\<close> for a semester
  and a year: the error names the id, which no unit has, or the code of that unit; the
  entry is a row in status \<^verbatim>\<open>allocated\<close> for the student, the unit, the semester and the
  year, with the notes of the request and the name and code of that unit.
\<close>

fun outcome_about ::
  "database \<Rightarrow> uuid \<Rightarrow> int \<Rightarrow> string \<Rightarrow> notes_value \<Rightarrow> nat
     \<Rightarrow> item_error + allocation_entry \<Rightarrow> bool" where
  "outcome_about db sid sem yr nt uid (Inl (UnitNotFound v)) =
     (v = uid \<and> filter (\<lambda>u. unit_id u = uid) (units db) = [])"
| "outcome_about db sid sem yr nt uid (Inl (AlreadyAllocated code)) =
     (filter (\<lambda>u. unit_id u = uid \<and> unit_code u = code) (units db) \<noteq> [])"
| "outcome_about db sid sem yr nt uid (Inr (row, name, code)) =
     (au_student_id row = sid \<and> au_unit_id row = uid \<and> au_semester row = sem
      \<and> au_academic_year row = yr \<and> au_status row = Allocated \<and> au_notes row = stored_notes nt
      \<and> filter (\<lambda>u. unit_id u = uid \<and> unit_name u = name \<and> unit_code u = code) (units db) \<noteq> [])"

section \<open>Direct unit registration\<close>

text \<open>
  \<^verbatim>\<open>POST /units/register\<close>. The body is destructured with the default
  \<^verbatim>\<open>status = 'active'\<close>; a field that is absent or the empty string is falsy. The
  statements go through \<^verbatim>\<open>pool.query\<close> one by one, with no transaction around them, and
  none of them touches \<^verbatim>\<open>allocated_units\<close>.
\<close>

record registration_body =
  body_student_reg :: "string option"
  body_unit_name :: "string option"
  body_unit_code :: "string option"
  body_status :: "string option"

datatype unit_register_response =
    UnitRegisterOk registered_unit string
  | UnitRegisterError nat string string

definition insert_unit :: "database \<Rightarrow> string \<Rightarrow> string \<Rightarrow> database" where
  "insert_unit db name code =
     db\<lparr>units := units db @
       [\<lparr>unit_id = fresh_id (map unit_id (units db)), unit_name = name, unit_code = code\<rparr>]\<rparr>"

definition register_unit :: "database \<Rightarrow> registration_body \<Rightarrow> unit_register_response \<times> database" where
  "register_unit db body =
     (case (body_student_reg body, body_unit_name body, body_unit_code body) of
        (Some student_reg, Some name, Some code) \<Rightarrow>
          (if student_reg = [] \<or> name = [] \<or> code = []
           then (UnitRegisterError 400 ''Missing required fields''
                   ''Student registration number, unit name, and unit code are required'', db)
           else
          (case select_student_by_reg db student_reg of
             [] \<Rightarrow> (UnitRegisterError 404 ''Student not found''
                      ''No student found with the provided registration number'', db)
           | studentRow # _ \<Rightarrow>
               (let db1 = (if filter (\<lambda>u. unit_code u = code) (units db) = []
                           then insert_unit db name code else db)
                in (case select_registered db1 (student_id studentRow) code of
                      _ # _ \<Rightarrow> (UnitRegisterError 409 ''Unit already registered''
                                  ''Student is already registered for this unit'', db1)
                    | [] \<Rightarrow>
                        (case insert_registered_unit None (student_id studentRow) name code
                                (case body_status body of None \<Rightarrow> ''active'' | Some st \<Rightarrow> st) db1 of
                           Inl e \<Rightarrow> (UnitRegisterError 500 ''Failed to register unit'' (message e), db1)
                         | Inr (row, db2) \<Rightarrow> (UnitRegisterOk row student_reg, db2))))))
      | _ \<Rightarrow> (UnitRegisterError 400 ''Missing required fields''
                 ''Student registration number, unit name, and unit code are required'', db))"

section \<open>The pairing of allocated and registered units\<close>

text \<open>
  A registered unit carries no reference to an allocation: an allocation \<open>a\<close> corresponds
  to a registered unit \<open>r\<close> when both are of the same student and the unit of \<open>a\<close> has the
  code of \<open>r\<close>. The invariant of the pairs has two halves. The first: no registered unit
  in status \<^verbatim>\<open>registered\<close> has a corresponding allocation that is not in status
  \<^verbatim>\<open>registered\<close>. The second: every allocation in status \<^verbatim>\<open>registered\<close> has a
  corresponding registered unit.
\<close>

definition corresponds :: "database \<Rightarrow> allocated_unit \<Rightarrow> registered_unit \<Rightarrow> bool" where
  "corresponds db a r \<longleftrightarrow>
     au_student_id a = ru_student_id r
     \<and> filter (\<lambda>u. unit_id u = au_unit_id a \<and> unit_code u = ru_unit_code r) (units db) \<noteq> []"

definition registered_units_paired :: "database \<Rightarrow> bool" where
  "registered_units_paired db \<longleftrightarrow>
     (\<forall>r \<in> set (registered_units db). ru_status r = ''registered'' \<longrightarrow>
        (\<forall>a \<in> set (allocated_units db). corresponds db a r \<longrightarrow> au_status a = Registered))"

definition registered_allocations_matched :: "database \<Rightarrow> bool" where
  "registered_allocations_matched db \<longleftrightarrow>
     (\<forall>a \<in> set (allocated_units db). au_status a = Registered \<longrightarrow>
        (\<exists>r \<in> set (registered_units db). corresponds db a r))"

definition pair_invariant :: "database \<Rightarrow> bool" where
  "pair_invariant db \<longleftrightarrow> registered_units_paired db \<and> registered_allocations_matched db"

text \<open>
  The states that the three operations reach from a database in which nothing is allocated
  or registered yet.
\<close>

inductive reachable :: "database \<Rightarrow> bool" where
  initial: "allocated_units db = [] \<Longrightarrow> registered_units db = [] \<Longrightarrow> reachable db"
| allocated: "reachable db \<Longrightarrow> reachable (snd (allocate_units db regNumber body))"
| registered:
    "reachable db \<Longrightarrow>
     reachable (snd (register_allocated_unit faults db regNumber allocated_unit_id))"
| direct: "reachable db \<Longrightarrow> reachable (snd (register_unit db body))"

section \<open>Document upload\<close>

text \<open>
  \<^verbatim>\<open>handleFileUpload\<close> stores the file in the remote bucket or, failing that, under the
  local \<^verbatim>\<open>uploads\<close> directory, and then inserts a row of \<^verbatim>\<open>student_documents\<close>. Both blob
  stores are maps from the object key (the path below the bucket, or below \<^verbatim>\<open>uploads\<close>) to
  the bytes stored there.
\<close>

record uploaded_file =
  file_name :: string
  file_size :: nat
  file_type :: string
  file_bytes :: "nat list"

record blob_stores =
  remote_objects :: "string \<rightharpoonup> nat list"
  local_files :: "string \<rightharpoonup> nat list"

text \<open>
  What the INSERT into \<^verbatim>\<open>student_documents\<close> does: it executes, it returns no row, or the
  driver raises (the connection is lost, say).
\<close>

datatype insert_mode = Executes | ReturnsNoRows | Raises db_error

text \<open>
  The surroundings of one call: the two environment variables, the two readings of the
  clock (\<^verbatim>\<open>Date.now()\<close> for the object key, \<^verbatim>\<open>new Date()\<close> for \<^verbatim>\<open>uploaded_at\<close>), and what
  each call to the outside answers. An \<open>option\<close> is the message of the error the call
  reports or raises, \<open>None\<close> when it succeeds.
\<close>

record upload_env =
  supabase_url :: "string option"
  supabase_service_role_key :: "string option"
  date_now :: nat
  new_date :: nat
  array_buffer_error :: "string option"
  list_buckets :: "string + string list"
  create_bucket_error :: "string option"
  upload_error :: "string option"
  public_url_base :: string
  remove_error :: "string option"
  local_write_error :: "string option"
  unlink_error :: "string option"
  insert_behaviour :: insert_mode

record upload_data =
  data_id :: uuid
  data_registration_number :: string
  data_document_type :: string
  data_file_url :: string
  data_file_name :: string
  data_file_size :: nat
  data_uploaded_at :: nat
  data_storage_method :: string

text \<open>\<^verbatim>\<open>file.name.split('.').pop()\<close>: what follows the last dot, the whole name when it has none.\<close>

definition file_extension :: "string \<Rightarrow> string" where
  "file_extension name = rev (takeWhile (\<lambda>c. c \<noteq> CHR ''.'') (rev name))"

text \<open>
  A string is the sequence of its UTF-16 code units, and the strings of this theory are
  those with every code unit below 256. \<^verbatim>\<open>trim()\<close> strips the white space and the line
  terminators of the language at both ends; below 256 these are the blank, the characters
  9 to 13 and the no-break space 160.
\<close>

definition is_space :: "char \<Rightarrow> bool" where
  "is_space c \<longleftrightarrow>
     c = CHR '' '' \<or> (9 :: nat) \<le> of_char c \<and> of_char c \<le> (13 :: nat) \<or> c = CHR 0xA0"

definition trim :: "string \<Rightarrow> string" where
  "trim s = rev (dropWhile is_space (rev (dropWhile is_space s)))"

text \<open>
  \<^verbatim>\<open>encodeURI\<close>, which the storage client applies to the public URL it answers: a letter,
  a digit and the marks \<^verbatim>\<open>; / ? : @ & = + $ , - _ . ! ~ * ' ( ) #\<close> stay as they are; any
  other character becomes the bytes of its UTF-8 form, each written as a percent sign and
  two hexadecimal digits. A code unit below 128 is one byte, one from 128 to 255 two.
\<close>

definition uri_unescaped :: "char \<Rightarrow> bool" where
  "uri_unescaped c \<longleftrightarrow>
     (65 :: nat) \<le> of_char c \<and> of_char c \<le> (90 :: nat)
     \<or> (97 :: nat) \<le> of_char c \<and> of_char c \<le> (122 :: nat)
     \<or> (48 :: nat) \<le> of_char c \<and> of_char c \<le> (57 :: nat)
     \<or> c \<in> set '';/?:@&=+$,-_.!~*()#'' \<or> c = CHR 0x27"

definition percent_byte :: "nat \<Rightarrow> string" where
  "percent_byte b = [CHR ''%'', ''0123456789ABCDEF'' ! (b div 16), ''0123456789ABCDEF'' ! (b mod 16)]"

definition encode_char :: "char \<Rightarrow> string" where
  "encode_char c =
     (if uri_unescaped c then [c]
      else if of_char c < (128 :: nat) then percent_byte (of_char c)
      else percent_byte (192 + of_char c div 64) @ percent_byte (128 + of_char c mod 64))"

definition encodeURI :: "string \<Rightarrow> string" where
  "encodeURI s = concat (map encode_char s)"

definition is_set :: "string option \<Rightarrow> bool" where
  "is_set v = (case v of None \<Rightarrow> False | Some s \<Rightarrow> s \<noteq> [])"

definition isSupabaseConfigured :: "upload_env \<Rightarrow> bool" where
  "isSupabaseConfigured env \<longleftrightarrow>
     is_set (supabase_url env) \<and> is_set (supabase_service_role_key env)
     \<and> supabase_url env \<noteq> Some ''your_supabase_url''"

text \<open>
  The \<^verbatim>\<open>try\<close> block of the remote path: read the file, list the buckets, create the bucket
  \<^verbatim>\<open>student-documents\<close> if it is not among them, upload (\<^verbatim>\<open>upsert: false\<close> refuses a key
  that is taken), take the public URL, which \<^verbatim>\<open>getPublicUrl\<close> forms from the URL of the
  bucket (\<open>public_url_base\<close>) and the key. An error anywhere leaves the block with its
  message.
\<close>

definition supabase_upload ::
  "upload_env \<Rightarrow> blob_stores \<Rightarrow> uploaded_file \<Rightarrow> string \<Rightarrow> string + string \<times> blob_stores" where
  "supabase_upload env stores file fileName =
     (case array_buffer_error env of
        Some m \<Rightarrow> Inl m
      | None \<Rightarrow>
     (case list_buckets env of
        Inl m \<Rightarrow> Inl (''Bucket access error: '' @ m)
      | Inr buckets \<Rightarrow>
     (case (if ''student-documents'' \<in> set buckets then None else create_bucket_error env) of
        Some m \<Rightarrow> Inl (''Bucket creation failed: '' @ m)
      | None \<Rightarrow>
     (case (if remote_objects stores fileName \<noteq> None then Some ''The resource already exists''
            else upload_error env) of
        Some m \<Rightarrow> Inl (''Upload failed: '' @ m)
      | None \<Rightarrow>
          Inr (encodeURI (public_url_base env @ fileName),
               stores\<lparr>remote_objects := (remote_objects stores)(fileName \<mapsto> file_bytes file)\<rparr>)))))"

definition saveFileLocally ::
  "upload_env \<Rightarrow> blob_stores \<Rightarrow> uploaded_file \<Rightarrow> string \<Rightarrow> string + string \<times> blob_stores" where
  "saveFileLocally env stores file fileName =
     (case local_write_error env of
        Some m \<Rightarrow> Inl (''Local storage failed: '' @ m)
      | None \<Rightarrow>
     (case array_buffer_error env of
        Some m \<Rightarrow> Inl (''Local storage failed: '' @ m)
      | None \<Rightarrow>
          Inr (''/uploads/'' @ fileName,
               stores\<lparr>local_files := (local_files stores)(fileName \<mapsto> file_bytes file)\<rparr>)))"

text \<open>
  The INSERT, with the column types of \<^verbatim>\<open>create_student_documents_table.sql\<close>:
  \<^verbatim>\<open>registration_number VARCHAR(50)\<close>, \<^verbatim>\<open>document_type VARCHAR(50)\<close>,
  \<^verbatim>\<open>file_name VARCHAR(255)\<close>, \<^verbatim>\<open>file_size INTEGER\<close>. A value that does not fit raises
  (a text that is too long only by blanks at its end is cut to the width instead; the
  callers trim the registration number and fix the document type, and no property below
  takes a file name of more than 255 characters). The result is the list of the rows of
  \<^verbatim>\<open>RETURNING *\<close>.
\<close>

definition insert_student_document ::
  "insert_mode \<Rightarrow> database \<Rightarrow> string \<Rightarrow> string \<Rightarrow> string \<Rightarrow> string \<Rightarrow> nat \<Rightarrow> nat
     \<Rightarrow> db_error + student_document list \<times> database" where
  "insert_student_document mode db reg doctype url name fsize uploaded =
     (case mode of
        Raises e \<Rightarrow> Inl e
      | ReturnsNoRows \<Rightarrow> Inr ([], db)
      | Executes \<Rightarrow>
          (if length reg > 50 \<or> length doctype > 50
             then Inl (DriverError ''value too long for type character varying(50)'')
           else if length name > 255
             then Inl (DriverError ''value too long for type character varying(255)'')
           else if fsize > 2147483647
             then Inl (OutOfRange (int fsize))
           else
             (let row = \<lparr>doc_id = fresh_id (map doc_id (student_documents db)),
                         doc_registration_number = reg, doc_document_type = doctype,
                         doc_file_url = url, doc_file_name = name, doc_file_size = fsize,
                         doc_uploaded_at = uploaded\<rparr>
              in Inr ([row], db\<lparr>student_documents := student_documents db @ [row]\<rparr>))))"

text \<open>
  The clean-up after an INSERT that returned no row: remove the remote object, or unlink
  the local file; an error of the clean-up is logged and goes no further.
\<close>

definition cleanup_blob :: "upload_env \<Rightarrow> blob_stores \<Rightarrow> string \<Rightarrow> string \<Rightarrow> blob_stores" where
  "cleanup_blob env stores storageMethod fileName =
     (if storageMethod = ''supabase'' then
        (case remove_error env of
           Some m \<Rightarrow> stores
         | None \<Rightarrow> stores\<lparr>remote_objects := (remote_objects stores)(fileName := None)\<rparr>)
      else if storageMethod = ''local'' then
        (case unlink_error env of
           Some m \<Rightarrow> stores
         | None \<Rightarrow> stores\<lparr>local_files := (local_files stores)(fileName := None)\<rparr>)
      else stores)"

text \<open>The storing step of \<^verbatim>\<open>handleFileUpload\<close>: the URL, the storage method, the stores.\<close>

definition store_file ::
  "upload_env \<Rightarrow> blob_stores \<Rightarrow> uploaded_file \<Rightarrow> string
     \<Rightarrow> string + string \<times> string \<times> blob_stores" where
  "store_file env stores file fileName =
     (if isSupabaseConfigured env then
        (case supabase_upload env stores file fileName of
           Inr (fileUrl, stores') \<Rightarrow> Inr (fileUrl, ''supabase'', stores')
         | Inl supabaseError \<Rightarrow>
             (case saveFileLocally env stores file fileName of
                Inl e \<Rightarrow> Inl e
              | Inr (fileUrl, stores') \<Rightarrow> Inr (fileUrl, ''local'', stores')))
      else
        (case saveFileLocally env stores file fileName of
           Inl e \<Rightarrow> Inl e
         | Inr (fileUrl, stores') \<Rightarrow> Inr (fileUrl, ''local'', stores')))"

definition object_key :: "upload_env \<Rightarrow> string \<Rightarrow> uploaded_file \<Rightarrow> string \<Rightarrow> string" where
  "object_key env registrationNumber file documentType =
     documentType @ ''/'' @ registrationNumber @ ''_'' @ decimal (date_now env) @ ''.''
       @ file_extension (file_name file)"

text \<open>
  \<^verbatim>\<open>handleFileUpload\<close>. The result is the error it throws (\<open>Inl\<close>, the message) or the
  data of its answer, with the database and the blob stores as the call leaves them. Only
  an INSERT that returns no row reaches the clean-up; an INSERT that raises leaves
  through the outer \<^verbatim>\<open>catch\<close>, which rethrows.
\<close>

definition handleFileUpload ::
  "upload_env \<Rightarrow> database \<Rightarrow> blob_stores \<Rightarrow> string \<Rightarrow> uploaded_file \<Rightarrow> string
     \<Rightarrow> (string + upload_data) \<times> database \<times> blob_stores" where
  "handleFileUpload env db stores registrationNumber file documentType =
     (let fileName = object_key env registrationNumber file documentType in
      (case store_file env stores file fileName of
         Inl e \<Rightarrow> (Inl e, db, stores)
       | Inr (fileUrl, storageMethod, stores1) \<Rightarrow>
           (case insert_student_document (insert_behaviour env) db registrationNumber documentType
                   fileUrl (file_name file) (file_size file) (new_date env) of
              Inl e \<Rightarrow> (Inl (message e), db, stores1)
            | Inr ([], db1) \<Rightarrow>
                (Inl ''Database insertion failed'', db1,
                 cleanup_blob env stores1 storageMethod fileName)
            | Inr (row # _, db1) \<Rightarrow>
                (Inr \<lparr>data_id = doc_id row, data_registration_number = registrationNumber,
                      data_document_type = documentType, data_file_url = fileUrl,
                      data_file_name = file_name file, data_file_size = file_size file,
                      data_uploaded_at = doc_uploaded_at row,
                      data_storage_method = storageMethod\<rparr>, db1, stores1))))"

section \<open>The document upload routes and the document listing\<close>

text \<open>
  \<^verbatim>\<open>POST /exam-card\<close>, \<^verbatim>\<open>/fees-structure\<close>, \<^verbatim>\<open>/fees-statement\<close>, \<^verbatim>\<open>/fees-receipt\<close>,
  \<^verbatim>\<open>/results\<close> and \<^verbatim>\<open>/timetable\<close> are written to one pattern: parse the form, take the
  registration number and the file, validate them, call \<^verbatim>\<open>handleFileUpload\<close> with the
  trimmed registration number, and answer 201 with its data, or 500 with the message of
  the error it threw. None of them looks the student up. The parsed form is the list of its
  fields; \<^verbatim>\<open>formData.get\<close> gives the first value of a name, a string or a file, and
  \<^verbatim>\<open>a || b || c\<close> is the first of the values that is truthy, or the last one.
\<close>

datatype form_value = Text string | Upload uploaded_file

fun truthy :: "form_value option \<Rightarrow> bool" where
  "truthy None = False"
| "truthy (Some (Text s)) = (s \<noteq> [])"
| "truthy (Some (Upload f)) = True"

fun first_truthy :: "form_value option list \<Rightarrow> form_value option" where
  "first_truthy [] = None"
| "first_truthy [v] = v"
| "first_truthy (v # w # vs) = (if truthy v then v else first_truthy (w # vs))"

datatype upload_response =
    Uploaded string upload_data
  | UploadRejected nat string
  | UploadFailed string string

text \<open>
  What the six handlers differ in: the field names tried for the registration number and
  for the file, the document type, whether \<^verbatim>\<open>file.size === 0\<close> is part of the test for a
  missing file, whether a file below 1024 bytes is refused, and the texts of the answers.
\<close>

record upload_route =
  registration_fields :: "string list"
  file_fields :: "string list"
  document_type :: string
  empty_file_refused :: bool
  small_file_refused :: bool
  file_required :: string
  uploaded_message :: string
  failed_message :: string

definition exam_card_route :: upload_route where
  "exam_card_route =
     \<lparr>registration_fields = [''registrationNumber'', ''registration_number'', ''regNumber'',
                              ''reg_number''],
      file_fields = [''file'', ''examCard'', ''exam_card'', ''document''],
      document_type = ''exam-card'', empty_file_refused = False, small_file_refused = True,
      file_required = ''File is required'',
      uploaded_message = ''Exam card uploaded successfully'',
      failed_message = ''Failed to upload exam card''\<rparr>"

definition fees_structure_route :: upload_route where
  "fees_structure_route =
     \<lparr>registration_fields = [''registrationNumber'', ''registration_number'', ''regNumber''],
      file_fields = [''file'', ''feesStructure'', ''fees_structure'', ''document''],
      document_type = ''fees-structure'', empty_file_refused = True, small_file_refused = False,
      file_required = ''Valid file is required'',
      uploaded_message = ''Fees structure uploaded successfully'',
      failed_message = ''Failed to upload fees structure''\<rparr>"

definition fees_statement_route :: upload_route where
  "fees_statement_route =
     \<lparr>registration_fields = [''registrationNumber'', ''registration_number'', ''regNumber''],
      file_fields = [''file'', ''feesStatement'', ''fees_statement'', ''document''],
      document_type = ''fees-statement'', empty_file_refused = True, small_file_refused = False,
      file_required = ''Valid file is required'',
      uploaded_message = ''Fees statement uploaded successfully'',
      failed_message = ''Failed to upload fees statement''\<rparr>"

definition fees_receipt_route :: upload_route where
  "fees_receipt_route =
     \<lparr>registration_fields = [''registrationNumber'', ''registration_number'', ''regNumber''],
      file_fields = [''file'', ''feesReceipt'', ''fees_receipt'', ''document''],
      document_type = ''fees-receipt'', empty_file_refused = True, small_file_refused = False,
      file_required = ''Valid file is required'',
      uploaded_message = ''Fees receipt uploaded successfully'',
      failed_message = ''Failed to upload fees receipt''\<rparr>"

definition results_route :: upload_route where
  "results_route =
     \<lparr>registration_fields = [''registrationNumber'', ''registration_number'', ''regNumber''],
      file_fields = [''file'', ''results'', ''result'', ''document''],
      document_type = ''results'', empty_file_refused = True, small_file_refused = False,
      file_required = ''Valid file is required'',
      uploaded_message = ''Results uploaded successfully'',
      failed_message = ''Failed to upload results''\<rparr>"

definition timetable_route :: upload_route where
  "timetable_route =
     \<lparr>registration_fields = [''registrationNumber'', ''registration_number'', ''regNumber''],
      file_fields = [''file'', ''timetable'', ''schedule'', ''document''],
      document_type = ''timetable'', empty_file_refused = True, small_file_refused = True,
      file_required = ''Valid file is required'',
      uploaded_message = ''Timetable uploaded successfully'',
      failed_message = ''Failed to upload timetable''\<rparr>"

definition document_routes :: "upload_route list" where
  "document_routes = [exam_card_route, fees_structure_route, fees_statement_route,
                      fees_receipt_route, results_route, timetable_route]"

definition post_document ::
  "upload_route \<Rightarrow> upload_env \<Rightarrow> database \<Rightarrow> blob_stores \<Rightarrow> (string \<times> form_value) list
     \<Rightarrow> upload_response \<times> database \<times> blob_stores" where
  "post_document route env db stores formData =
     (let registrationNumber = first_truthy (map (map_of formData) (registration_fields route));
          file = first_truthy (map (map_of formData) (file_fields route))
      in
      (case registrationNumber of
         Some (Text reg) \<Rightarrow>
           (if reg = [] then (UploadRejected 400 ''Registration number is required'', db, stores)
            else
           (case file of
              Some (Upload f) \<Rightarrow>
                (if empty_file_refused route \<and> file_size f = 0
                   then (UploadRejected 400 (file_required route), db, stores)
                 else if file_size f > 10 * 1024 * 1024
                   then (UploadRejected 400 ''File size must be less than 10MB'', db, stores)
                 else if small_file_refused route \<and> file_size f < 1024
                   then (UploadRejected 400 ''File appears to be empty or too small'', db, stores)
                 else
                   (case handleFileUpload env db stores (trim reg) f (document_type route) of
                      (Inl e, db', stores') \<Rightarrow>
                        (UploadFailed (failed_message route) e, db', stores')
                    | (Inr result, db', stores') \<Rightarrow>
                        (Uploaded (uploaded_message route) result, db', stores')))
            | _ \<Rightarrow> (UploadRejected 400 (file_required route), db, stores)))
       | _ \<Rightarrow> (UploadRejected 400 ''Registration number is required'', db, stores)))"

text \<open>
  \<^verbatim>\<open>GET /documents/:registrationNumber\<close>:
  \<^verbatim>\<open>SELECT * FROM student_documents WHERE registration_number = $1 ORDER BY uploaded_at DESC\<close>.
\<close>

definition get_documents :: "database \<Rightarrow> string \<Rightarrow> student_document list" where
  "get_documents db registrationNumber =
     rev (sort_key doc_uploaded_at
       (filter (\<lambda>d. doc_registration_number d = registrationNumber) (student_documents db)))"

section \<open>Exam card retrieval\<close>

text \<open>
  \<^verbatim>\<open>parseFloat\<close> reads the decimal text of a \<^verbatim>\<open>numeric\<close> as a double: the binary64 number
  nearest to the decimal, the one with the even significand when two are equally near, and
  an infinity beyond the range of the format. \<open>binade x k n\<close> searches the exponent of
  \<open>x\<close> downwards from \<open>k\<close> in at most \<open>n\<close> steps; from 1023 in 2045 steps it ends at
  \<open>- 1022\<close>, the exponent of the subnormal numbers. A double is written as the rational
  number it is; the two zeros are not told apart.
\<close>

datatype js_number = Finite rat | PlusInfinity | MinusInfinity

definition pow2 :: "int \<Rightarrow> rat" where
  "pow2 k = power_int 2 k"

fun binade :: "rat \<Rightarrow> int \<Rightarrow> nat \<Rightarrow> int" where
  "binade x k 0 = k"
| "binade x k (Suc n) = (if pow2 k \<le> x then k else binade x (k - 1) n)"

definition round_half_even :: "rat \<Rightarrow> int" where
  "round_half_even x =
     (let f = \<lfloor>x\<rfloor>; r = x - of_int f
      in if r < 1 / 2 then f else if 1 / 2 < r then f + 1 else if even f then f else f + 1)"

definition parseFloat :: "rat \<Rightarrow> js_number" where
  "parseFloat q =
     (let a = \<bar>q\<bar>;
          ulp = pow2 (binade a 1023 2045) / 2 ^ 52;
          v = of_int (round_half_even (a / ulp)) * ulp
      in if pow2 1024 \<le> v then (if q < 0 then MinusInfinity else PlusInfinity)
         else Finite (if q < 0 then - v else v))"

text \<open>\<^verbatim>\<open>x || 0\<close> on numbers (zero is falsy), and \<^verbatim>\<open>x > 0\<close>.\<close>

definition or_zero :: "js_number \<Rightarrow> js_number" where
  "or_zero x = (if x = Finite 0 then Finite 0 else x)"

fun greater_than_zero :: "js_number \<Rightarrow> bool" where
  "greater_than_zero (Finite v) = (0 < v)"
| "greater_than_zero PlusInfinity = True"
| "greater_than_zero MinusInfinity = False"

text \<open>
  \<^verbatim>\<open>GET /students/:id/exam-card\<close>, as far as \<^verbatim>\<open>src/index.js\<close> has it: the student, the fee
  gate on \<^verbatim>\<open>feeRows[0]\<close>, the newest exam card of the unified documents.
  \<^verbatim>\<open>SELECT fee_balance FROM fees WHERE student_id = $1\<close> has no \<^verbatim>\<open>ORDER BY\<close>, and \<^verbatim>\<open>fees\<close>
  has no unique constraint on \<^verbatim>\<open>student_id\<close>: the rows of a student come back in an order
  of the server's choosing, the parameter \<open>returned\<close>. What the handler does when the
  unified documents hold no exam card is not part of the source file; it is the parameter
  \<open>legacy\<close>.
\<close>

datatype exam_card_response =
    ExamCardError nat string
  | FeePaymentRequired js_number
  | ExamCardDocument student_document

definition get_exam_card ::
  "(fee_row list \<Rightarrow> fee_row list) \<Rightarrow> exam_card_response \<Rightarrow> database \<Rightarrow> uuid
     \<Rightarrow> exam_card_response" where
  "get_exam_card returned legacy db studentId =
     (case select_student_by_id db studentId of
        [] \<Rightarrow> ExamCardError 404 ''Student not found''
      | student # _ \<Rightarrow>
          (case returned (filter (\<lambda>f. fee_student_id f = studentId) (fees db)) of
             feeRow # _ \<Rightarrow>
               (let feeBalance = or_zero (parseFloat (fee_balance feeRow))
                in if greater_than_zero feeBalance then FeePaymentRequired feeBalance
                   else
                     (case take 1 (rev (sort_key doc_uploaded_at
                             (filter (\<lambda>d. doc_registration_number d = registration_number student
                                           \<and> doc_document_type d = ''exam-card'')
                                (student_documents db)))) of
                        doc # _ \<Rightarrow> ExamCardDocument doc
                      | [] \<Rightarrow> legacy))
           | [] \<Rightarrow>
               (case take 1 (rev (sort_key doc_uploaded_at
                       (filter (\<lambda>d. doc_registration_number d = registration_number student
                                     \<and> doc_document_type d = ''exam-card'') (student_documents db)))) of
                  doc # _ \<Rightarrow> ExamCardDocument doc
                | [] \<Rightarrow> legacy)))"

section \<open>A small database\<close>

text \<open>
  One student, two units of the catalogue, and unit CS101 allocated to the student for
  semester 1 of 2024/2025. The properties below are run on it.
\<close>

definition demo_student :: student where
  "demo_student = \<lparr>student_id = 1, registration_number = ''CS/001/2021'',
                    student_name = ''Amina Otieno''\<rparr>"

definition demo_cs101 :: unit_row where
  "demo_cs101 = \<lparr>unit_id = 7, unit_name = ''Data Structures'', unit_code = ''CS101''\<rparr>"

definition demo_cs102 :: unit_row where
  "demo_cs102 = \<lparr>unit_id = 8, unit_name = ''Operating Systems'', unit_code = ''CS102''\<rparr>"

definition demo_allocation :: allocated_unit where
  "demo_allocation = \<lparr>au_id = 3, au_student_id = 1, au_unit_id = 7, au_semester = 1,
                       au_academic_year = ''2024/2025'', au_status = Allocated, au_notes = None\<rparr>"

definition demo_db :: database where
  "demo_db = \<lparr>students = [demo_student], units = [demo_cs101, demo_cs102],
               allocated_units = [demo_allocation], registered_units = [],
               fees = [], student_documents = []\<rparr>"

definition demo_body :: "nat list \<Rightarrow> allocation_body" where
  "demo_body ids = \<lparr>unit_ids = Some ids, semester = None, academic_year = None,
                     body_notes = NotesText ''second intake''\<rparr>"

text \<open>
  The same student with CS101 allocated for semester 2 of 2025/2026 as well, and a request
  for that term.
\<close>

definition demo_second_allocation :: allocated_unit where
  "demo_second_allocation = \<lparr>au_id = 5, au_student_id = 1, au_unit_id = 7, au_semester = 2,
     au_academic_year = ''2025/2026'', au_status = Allocated, au_notes = None\<rparr>"

definition demo_two_terms :: database where
  "demo_two_terms = demo_db\<lparr>allocated_units := [demo_allocation, demo_second_allocation]\<rparr>"

definition demo_second_body :: "nat list \<Rightarrow> allocation_body" where
  "demo_second_body ids = \<lparr>unit_ids = Some ids, semester = Some 2,
     academic_year = Some ''2025/2026'', body_notes = NotesNull\<rparr>"

text \<open>The same student before anything is allocated.\<close>

definition demo_start :: database where
  "demo_start = demo_db\<lparr>allocated_units := []\<rparr>"

text \<open>
  Three states the operations reach from there: CS101 allocated for semester 1 of
  2024/2025; allocated for semester 2 of 2025/2026 as well; allocated for the first term
  and registered.
\<close>

definition demo_first_term :: database where
  "demo_first_term =
     snd (allocate_units demo_start ''CS/001/2021'' (demo_body [7]))"

definition demo_both_terms :: database where
  "demo_both_terms =
     snd (allocate_units demo_first_term ''CS/001/2021'' (demo_second_body [7]))"

definition demo_first_registered :: database where
  "demo_first_registered =
     snd (register_allocated_unit no_faults demo_first_term ''CS/001/2021'' (Some 1))"

definition insert_broken :: tx_faults where
  "insert_broken = \<lparr>update_fault = None, insert_fault = Some (DriverError ''connection terminated'')\<rparr>"

definition demo_registration :: "string option \<Rightarrow> registration_body" where
  "demo_registration st = \<lparr>body_student_reg = Some ''CS/001/2021'',
     body_unit_name = Some ''Data Structures'', body_unit_code = Some ''CS101'', body_status = st\<rparr>"

text \<open>
  An upload: a configured remote store whose bucket exists, a PDF of 2 KiB, and the form
  that carries it for a registration number.
\<close>

definition demo_env :: upload_env where
  "demo_env = \<lparr>supabase_url = Some ''https://portal.supabase.co'',
                supabase_service_role_key = Some ''service-role-key'',
                date_now = 1718000000000, new_date = 1718000000042,
                array_buffer_error = None, list_buckets = Inr [''student-documents''],
                create_bucket_error = None, upload_error = None,
                public_url_base = ''https://portal.supabase.co/storage/v1/object/public/student-documents/'',
                remove_error = None, local_write_error = None, unlink_error = None,
                insert_behaviour = Executes\<rparr>"

definition demo_file :: uploaded_file where
  "demo_file = \<lparr>file_name = ''card.pdf'', file_size = 2048, file_type = ''application/pdf'',
                 file_bytes = [37, 80, 68, 70]\<rparr>"

definition empty_stores :: blob_stores where
  "empty_stores = \<lparr>remote_objects = Map.empty, local_files = Map.empty\<rparr>"

definition demo_form :: "string \<Rightarrow> (string \<times> form_value) list" where
  "demo_form reg = [(''registrationNumber'', Text reg), (''file'', Upload demo_file)]"

definition long_registration :: string where
  "long_registration = replicate 51 CHR ''7''"

definition demo_document :: "uuid \<Rightarrow> string \<Rightarrow> nat \<Rightarrow> student_document" where
  "demo_document i doctype t =
     \<lparr>doc_id = i, doc_registration_number = ''CS/001/2021'', doc_document_type = doctype,
      doc_file_url = ''/uploads/'' @ doctype @ ''/CS/001/2021_1.pdf'',
      doc_file_name = ''card.pdf'', doc_file_size = 2048, doc_uploaded_at = t\<rparr>"

definition demo_fee :: "rat \<Rightarrow> fee_row" where
  "demo_fee balance = \<lparr>fee_student_id = 1, fee_balance = balance\<rparr>"

definition demo_archive :: database where
  "demo_archive = demo_db\<lparr>fees := [\<lparr>fee_student_id = 1, fee_balance = 1500\<rparr>],
     student_documents := [demo_document 1 ''exam-card'' 1716000000000,
                           demo_document 2 ''results'' 1717000000000]\<rparr>"

section \<open>Properties\<close>

lemmas demo = demo_student_def demo_cs101_def demo_cs102_def demo_allocation_def demo_db_def
  demo_body_def demo_second_allocation_def demo_two_terms_def demo_second_body_def demo_start_def insert_broken_def demo_registration_def demo_env_def demo_file_def
  empty_stores_def demo_form_def long_registration_def demo_document_def demo_archive_def

lemma filter_distinct_key:
  assumes "distinct (map f xs)" and "x \<in> set xs"
  shows "filter (\<lambda>y. f y = f x) xs = [x]"
  using assms
proof (induction xs)
  case Nil
  then show ?case by simp
next
  case (Cons y ys)
  show ?case
  proof (cases "y = x")
    case True
    with Cons.prems have "\<forall>z\<in>set ys. f z \<noteq> f x"
      by (auto simp: image_iff)
    then have "filter (\<lambda>z. f z = f x) ys = []"
      by (simp add: filter_empty_conv)
    with True show ?thesis by simp
  next
    case False
    with Cons.prems have "x \<in> set ys" and "f y \<noteq> f x" by auto
    with Cons show ?thesis by simp
  qed
qed

lemma select_student_unique:
  assumes "distinct (map registration_number (students db))" and "s \<in> set (students db)"
  shows "select_student_by_reg db (registration_number s) = [s]"
  unfolding select_student_by_reg_def using filter_distinct_key [OF assms] .

lemma filter_unit_unique:
  assumes "distinct (map unit_id (units db))" and "u \<in> set (units db)"
  shows "filter (\<lambda>v. unit_id u = unit_id v) (units db) = [u]"
proof -
  have "filter (\<lambda>v. unit_id u = unit_id v) (units db) = filter (\<lambda>v. unit_id v = unit_id u) (units db)"
    by (rule filter_cong) auto
  then show ?thesis using filter_distinct_key [OF assms] by simp
qed

lemma filter_allocated_unique:
  assumes "distinct (map au_id (allocated_units db))" and "a \<in> set (allocated_units db)"
    and "au_student_id a = sid" and "au_status a = Allocated"
  shows "filter (\<lambda>x. au_id x = au_id a \<and> au_student_id x = sid \<and> au_status x = Allocated)
           (allocated_units db) = [a]"
proof -
  have "filter (\<lambda>x. au_id x = au_id a \<and> au_student_id x = sid \<and> au_status x = Allocated)
           (allocated_units db)
        = filter (\<lambda>x. au_student_id x = sid \<and> au_status x = Allocated)
            (filter (\<lambda>x. au_id x = au_id a) (allocated_units db))"
    by simp
  also have "\<dots> = [a]"
    using filter_distinct_key [OF assms(1,2)] assms(3,4) by simp
  finally show ?thesis .
qed

lemma select_allocated_join_unique:
  assumes "distinct (map au_id (allocated_units db))" and "a \<in> set (allocated_units db)"
    and "au_student_id a = sid" and "au_status a = Allocated"
    and "distinct (map unit_id (units db))" and "u \<in> set (units db)" and "au_unit_id a = unit_id u"
  shows "select_allocated_join db (au_id a) sid = [(a, u)]"
  using filter_allocated_unique [OF assms(1-4)] filter_unit_unique [OF assms(5,6)] assms(7)
  by (simp add: select_allocated_join_def)


lemma map_update_row:
  assumes "distinct (map f xs)" and "a \<in> set xs"
  shows "map (\<lambda>x. if f x = f a then g x else x) xs = map (\<lambda>x. if x = a then g a else x) xs"
proof (rule map_cong [OF refl])
  fix x assume "x \<in> set xs"
  with assms have "f x = f a \<longleftrightarrow> x = a"
    by (auto simp: distinct_map dest: inj_onD)
  then show "(if f x = f a then g x else x) = (if x = a then g a else x)" by auto
qed

lemma register_transaction_commits:
  "register_transaction no_faults aid sid u db =
     Inr (\<lparr>ru_id = fresh_id (map ru_id (registered_units db)), ru_student_id = sid,
            ru_unit_name = unit_name u, ru_unit_code = unit_code u, ru_status = ''registered''\<rparr>,
          db\<lparr>allocated_units :=
                map (\<lambda>x. if au_id x = aid then x\<lparr>au_status := Registered\<rparr> else x) (allocated_units db),
             registered_units := registered_units db @
               [\<lparr>ru_id = fresh_id (map ru_id (registered_units db)), ru_student_id = sid,
                 ru_unit_name = unit_name u, ru_unit_code = unit_code u, ru_status = ''registered''\<rparr>]\<rparr>)"
  by (simp add: register_transaction_def update_allocated_status_def insert_registered_unit_def
      no_faults_def Let_def)

lemma register_transaction_rolls_back:
  assumes "update_fault faults \<noteq> None \<or> insert_fault faults \<noteq> None"
  shows "\<exists>e. register_transaction faults aid sid u db = Inl e"
  using assms
  by (auto simp: register_transaction_def update_allocated_status_def insert_registered_unit_def
      split: option.splits)

lemma select_allocated_join_after:
  "select_allocated_join
     (db\<lparr>allocated_units :=
           map (\<lambda>x. if au_id x = aid then x\<lparr>au_status := Registered\<rparr> else x) (allocated_units db),
         registered_units := rs\<rparr>) aid sid = []"
proof -
  have none: "filter (\<lambda>a. au_id a = aid \<and> au_student_id a = sid \<and> au_status a = Allocated)
          (map (\<lambda>x. if au_id x = aid then x\<lparr>au_status := Registered\<rparr> else x) xs)
        = []" for xs
    by (induction xs) simp_all
  have "allocated_units (db\<lparr>allocated_units :=
           map (\<lambda>x. if au_id x = aid then x\<lparr>au_status := Registered\<rparr> else x) (allocated_units db),
         registered_units := rs\<rparr>)
      = map (\<lambda>x. if au_id x = aid then x\<lparr>au_status := Registered\<rparr> else x) (allocated_units db)"
    by simp
  then show ?thesis
    unfolding select_allocated_join_def by (simp only: none list.map concat.simps)
qed

text \<open>
  Claim C1. Let \<open>a\<close> be an allocation of student \<open>s\<close> in status \<^verbatim>\<open>allocated\<close>, for the unit
  \<open>u\<close>, and let \<open>s\<close> have no registered unit with the code of \<open>u\<close>. Then registering \<open>a\<close>
  answers with the new registered unit; in the database exactly the row \<open>a\<close> has changed,
  to status \<^verbatim>\<open>registered\<close>, and exactly one row has been added to \<^verbatim>\<open>registered_units\<close>,
  carrying the student's id, the unit's name and code and the status \<^verbatim>\<open>registered\<close>. If
  one of the two writes raises, the answer is 500 and the database is the one before the
  call. A second call with the same allocation id is answered 404 (not eligible) and changes
  nothing.
\<close>

theorem register_allocated_unit_correct:
  assumes "distinct (map registration_number (students db))"
    and "distinct (map au_id (allocated_units db))"
    and "distinct (map unit_id (units db))"
    and "s \<in> set (students db)" and "a \<in> set (allocated_units db)" and "u \<in> set (units db)"
    and "au_student_id a = student_id s" and "au_status a = Allocated"
    and "au_unit_id a = unit_id u"
    and "select_registered db (student_id s) (unit_code u) = []"
  shows "(let r = \<lparr>ru_id = fresh_id (map ru_id (registered_units db)),
                   ru_student_id = student_id s, ru_unit_name = unit_name u,
                   ru_unit_code = unit_code u, ru_status = ''registered''\<rparr>;
              db' = db\<lparr>allocated_units :=
                         map (\<lambda>x. if x = a then a\<lparr>au_status := Registered\<rparr> else x) (allocated_units db),
                       registered_units := registered_units db @ [r]\<rparr>
          in register_allocated_unit no_faults db (registration_number s) (Some (au_id a))
               = (RegisterOk r (registration_number s), db')
           \<and> (update_fault faults \<noteq> None \<or> insert_fault faults \<noteq> None \<longrightarrow>
                (\<exists>e. register_allocated_unit faults db (registration_number s) (Some (au_id a))
                   = (RegisterError 500 ''Failed to register allocated unit'' (message e), db)))
           \<and> register_allocated_unit faults' db' (registration_number s) (Some (au_id a))
               = (RegisterError 404 ''Allocated unit not found''
                    ''No allocated unit found with the provided ID for this student, or unit is already registered/cancelled'',
                  db'))"
proof -
  note sel = select_student_unique [OF assms(1,4)]
    select_allocated_join_unique [OF assms(2,5,7,8,3,6,9)]
  have upd: "map (\<lambda>x. if au_id x = au_id a then x\<lparr>au_status := Registered\<rparr> else x) (allocated_units db)
      = map (\<lambda>x. if x = a then a\<lparr>au_status := Registered\<rparr> else x) (allocated_units db)"
    using map_update_row [OF assms(2,5), of "\<lambda>x. x\<lparr>au_status := Registered\<rparr>"] .
  have ok: "register_allocated_unit no_faults db (registration_number s) (Some (au_id a))
      = (RegisterOk \<lparr>ru_id = fresh_id (map ru_id (registered_units db)),
                   ru_student_id = student_id s, ru_unit_name = unit_name u,
                   ru_unit_code = unit_code u, ru_status = ''registered''\<rparr> (registration_number s),
         db\<lparr>allocated_units :=
               map (\<lambda>x. if x = a then a\<lparr>au_status := Registered\<rparr> else x) (allocated_units db),
            registered_units := registered_units db @
              [\<lparr>ru_id = fresh_id (map ru_id (registered_units db)),
                   ru_student_id = student_id s, ru_unit_name = unit_name u,
                   ru_unit_code = unit_code u, ru_status = ''registered''\<rparr>]\<rparr>)"
    by (simp add: register_allocated_unit_def sel assms(10) register_transaction_commits upd)
  have fail: "\<exists>e. register_allocated_unit faults db (registration_number s) (Some (au_id a))
                   = (RegisterError 500 ''Failed to register allocated unit'' (message e), db)"
    if "update_fault faults \<noteq> None \<or> insert_fault faults \<noteq> None"
  proof -
    from register_transaction_rolls_back [OF that]
    obtain e where "register_transaction faults (au_id a) (student_id s) u db = Inl e" by blast
    then have "register_allocated_unit faults db (registration_number s) (Some (au_id a))
        = (RegisterError 500 ''Failed to register allocated unit'' (message e), db)"
      by (simp add: register_allocated_unit_def sel assms(10))
    then show ?thesis by blast
  qed
  have again: "register_allocated_unit faults'
        (db\<lparr>allocated_units :=
               map (\<lambda>x. if x = a then a\<lparr>au_status := Registered\<rparr> else x) (allocated_units db),
            registered_units := rs\<rparr>) (registration_number s) (Some (au_id a))
      = (RegisterError 404 ''Allocated unit not found''
           ''No allocated unit found with the provided ID for this student, or unit is already registered/cancelled'',
         db\<lparr>allocated_units :=
               map (\<lambda>x. if x = a then a\<lparr>au_status := Registered\<rparr> else x) (allocated_units db),
            registered_units := rs\<rparr>)" for rs
  proof -
    have "select_student_by_reg
        (db\<lparr>allocated_units :=
               map (\<lambda>x. if x = a then a\<lparr>au_status := Registered\<rparr> else x) (allocated_units db),
            registered_units := rs\<rparr>) (registration_number s) = [s]"
      using sel(1) by (simp add: select_student_by_reg_def)
    moreover have "select_allocated_join
        (db\<lparr>allocated_units :=
               map (\<lambda>x. if x = a then a\<lparr>au_status := Registered\<rparr> else x) (allocated_units db),
            registered_units := rs\<rparr>) (au_id a) (student_id s) = []"
      using select_allocated_join_after [where db = db and aid = "au_id a" and rs = rs and sid = "student_id s"] by (simp only: upd)
    ultimately show ?thesis
      by (simp add: register_allocated_unit_def)
  qed
  show ?thesis
    unfolding Let_def using ok fail again by blast
qed

theorem register_allocated_unit_correct_witness:
  "register_allocated_unit no_faults demo_db ''CS/001/2021'' (Some 3)
     = (RegisterOk \<lparr>ru_id = 1, ru_student_id = 1, ru_unit_name = ''Data Structures'',
                    ru_unit_code = ''CS101'', ru_status = ''registered''\<rparr> ''CS/001/2021'',
        demo_db\<lparr>allocated_units := [demo_allocation\<lparr>au_status := Registered\<rparr>],
                registered_units := [\<lparr>ru_id = 1, ru_student_id = 1,
                   ru_unit_name = ''Data Structures'', ru_unit_code = ''CS101'',
                   ru_status = ''registered''\<rparr>]\<rparr>)
   \<and> (\<exists>e. register_allocated_unit insert_broken demo_db ''CS/001/2021'' (Some 3)
          = (RegisterError 500 ''Failed to register allocated unit'' (message e), demo_db))
   \<and> register_allocated_unit no_faults
        (demo_db\<lparr>allocated_units := [demo_allocation\<lparr>au_status := Registered\<rparr>],
                registered_units := [\<lparr>ru_id = 1, ru_student_id = 1,
                   ru_unit_name = ''Data Structures'', ru_unit_code = ''CS101'',
                   ru_status = ''registered''\<rparr>]\<rparr>) ''CS/001/2021'' (Some 3)
     = (RegisterError 404 ''Allocated unit not found''
          ''No allocated unit found with the provided ID for this student, or unit is already registered/cancelled'',
        demo_db\<lparr>allocated_units := [demo_allocation\<lparr>au_status := Registered\<rparr>],
                registered_units := [\<lparr>ru_id = 1, ru_student_id = 1,
                   ru_unit_name = ''Data Structures'', ru_unit_code = ''CS101'',
                   ru_status = ''registered''\<rparr>]\<rparr>)"
proof -
  have h: "distinct (map registration_number (students demo_db))"
    "distinct (map au_id (allocated_units demo_db))"
    "distinct (map unit_id (units demo_db))"
    "demo_student \<in> set (students demo_db)"
    "demo_allocation \<in> set (allocated_units demo_db)"
    "demo_cs101 \<in> set (units demo_db)"
    "au_student_id demo_allocation = student_id demo_student"
    "au_status demo_allocation = Allocated"
    "au_unit_id demo_allocation = unit_id demo_cs101"
    "select_registered demo_db (student_id demo_student) (unit_code demo_cs101) = []"
    by (simp_all add: demo select_registered_def)
  have f: "update_fault insert_broken \<noteq> None \<or> insert_fault insert_broken \<noteq> None"
    by (simp add: insert_broken_def)
  from register_allocated_unit_correct [OF h, of insert_broken no_faults] f
  show ?thesis
    by (simp add: Let_def demo fresh_id_def)
qed

lemma allocate_unit_database:
  assumes "allocate_unit db sid sem yr nt uid = Inr (out, db')"
  shows "db' = db\<lparr>allocated_units := allocated_units db @ map fst (pushed_entries [out])\<rparr>"
  using assms
  by (auto simp: allocate_unit_def insert_allocated_unit_def Let_def
      split: sum.splits list.splits if_splits)

lemma insert_allocated_unit_row:
  assumes "insert_allocated_unit db sid uid sem yr nt = Inr (row, db')"
  shows "row = \<lparr>au_id = fresh_id (map au_id (allocated_units db)), au_student_id = sid,
                 au_unit_id = uid, au_semester = sem, au_academic_year = yr,
                 au_status = Allocated, au_notes = stored_notes nt\<rparr>"
  using assms by (auto simp: insert_allocated_unit_def Let_def split: if_splits)

lemma hd_filter:
  assumes "filter P xs = x # rest"
  shows "x \<in> set xs \<and> P x"
proof -
  from assms have "x \<in> set (filter P xs)" by simp
  then show ?thesis by simp
qed

lemma allocate_unit_about:
  assumes "allocate_unit db sid sem yr nt uid = Inr (out, db')"
  shows "outcome_about db sid sem yr nt uid out"
proof (cases "select_unit db uid")
  case (Inl e)
  with assms show ?thesis by (simp add: allocate_unit_def)
next
  case units: (Inr found)
  then have found: "found = filter (\<lambda>u. unit_id u = uid) (units db)"
    by (simp add: select_unit_def split: if_splits)
  show ?thesis
  proof (cases found)
    case Nil
    with assms units found show ?thesis by (auto simp: allocate_unit_def)
  next
    case (Cons u us)
    from hd_filter [OF Cons [unfolded found]]
    have code: "filter (\<lambda>v. unit_id v = uid \<and> unit_code v = unit_code u) (units db) \<noteq> []"
      and name: "filter (\<lambda>v. unit_id v = uid \<and> unit_name v = unit_name u \<and> unit_code v = unit_code u)
                   (units db) \<noteq> []"
      by (auto simp: filter_empty_conv)
    show ?thesis
    proof (cases "select_existing_allocation db sid uid sem yr")
      case (Inl e)
      with assms units Cons show ?thesis by (simp add: allocate_unit_def)
    next
      case existing: (Inr rows)
      show ?thesis
      proof (cases rows)
        case (Cons a as)
        with assms units existing \<open>found = u # us\<close> code show ?thesis
          by (auto simp: allocate_unit_def)
      next
        case Nil
        show ?thesis
        proof (cases "insert_allocated_unit db sid uid sem yr nt")
          case (Inl e)
          with assms units existing Nil \<open>found = u # us\<close> show ?thesis
            by (simp add: allocate_unit_def)
        next
          case (Inr p)
          obtain row db1 where p: "p = (row, db1)" by (cases p)
          from insert_allocated_unit_row [OF Inr [unfolded p]] assms units existing Nil
            \<open>found = u # us\<close> Inr p name
          show ?thesis by (auto simp: allocate_unit_def)
        qed
      qed
    qed
  qed
qed

lemma outcome_about_units:
  assumes "units db' = units db"
  shows "outcome_about db' sid sem yr nt uid out = outcome_about db sid sem yr nt uid out"
  by (cases "(db, sid, sem, yr, nt, uid, out)" rule: outcome_about.cases) (simp_all add: assms)

lemma allocation_outcomes_about:
  assumes "allocation_outcomes db sid sem yr nt ids = Inr outs"
  shows "list_all2 (outcome_about db sid sem yr nt) ids outs"
  using assms
proof (induction ids arbitrary: db outs)
  case Nil
  then show ?case by simp
next
  case (Cons uid rest)
  from Cons.prems obtain out db' outs' where
    step: "allocate_unit db sid sem yr nt uid = Inr (out, db')"
    and tail: "allocation_outcomes db' sid sem yr nt rest = Inr outs'"
    and outs: "outs = out # outs'"
    by (auto split: sum.splits)
  from allocate_unit_database [OF step] have units: "units db' = units db" by simp
  from Cons.IH [OF tail] have "list_all2 (outcome_about db' sid sem yr nt) rest outs'" .
  then have "list_all2 (outcome_about db sid sem yr nt) rest outs'"
    by (simp add: outcome_about_units [OF units, abs_def])
  with allocate_unit_about [OF step] outs show ?case by simp
qed

lemma allocate_loop_outcomes:
  "allocate_loop db sid sem yr nt ids acc errs =
     (case allocation_outcomes db sid sem yr nt ids of
        Inl e \<Rightarrow> Inl e
      | Inr outs \<Rightarrow>
          Inr (db\<lparr>allocated_units := allocated_units db @ map fst (pushed_entries outs)\<rparr>,
               acc @ pushed_entries outs, errs @ pushed_errors outs))"
proof (induction ids arbitrary: db acc errs)
  case Nil
  show ?case by simp
next
  case (Cons uid rest)
  show ?case
  proof (cases "allocate_unit db sid sem yr nt uid")
    case (Inl e)
    then show ?thesis by simp
  next
    case (Inr p)
    obtain out db' where p: "p = (out, db')" by (cases p)
    from allocate_unit_database [OF Inr [unfolded p]]
    have db': "db' = db\<lparr>allocated_units := allocated_units db @ map fst (pushed_entries [out])\<rparr>" .
    show ?thesis
    proof (cases out)
      case (Inl err)
      with Inr p db' Cons.IH [of db' acc "errs @ [err]"] show ?thesis
        by (simp split: sum.splits)
    next
      case entry: (Inr entry)
      with Inr p db' Cons.IH [of db' "acc @ [entry]" errs] show ?thesis
        by (simp split: sum.splits)
    qed
  qed
qed


lemma select_student_by_id_found:
  assumes "select_student_by_reg db regNumber = studentRow # others"
  obtains student extra where "select_student_by_id db (student_id studentRow) = student # extra"
    and "student \<in> set (students db)" and "student_id student = student_id studentRow"
proof -
  from assms have "studentRow \<in> set (filter (\<lambda>s. registration_number s = regNumber) (students db))"
    by (simp add: select_student_by_reg_def)
  then have "studentRow \<in> set (select_student_by_id db (student_id studentRow))"
    by (simp add: select_student_by_id_def)
  then obtain student extra where sel: "select_student_by_id db (student_id studentRow) = student # extra"
    by (cases "select_student_by_id db (student_id studentRow)") auto
  then have "student \<in> set (filter (\<lambda>s. student_id s = student_id studentRow) (students db))"
    by (simp add: select_student_by_id_def)
  then have "student \<in> set (students db)" and "student_id student = student_id studentRow"
    by simp_all
  with sel that show thesis by blast
qed

lemma allocate_units_run:
  assumes "select_student_by_reg db regNumber = studentRow # others"
    and "unit_ids body = Some ids" and "ids \<noteq> []"
    and "select_student_by_id db (student_id studentRow) = student # extra"
  shows "allocate_units db regNumber body =
           (case allocation_outcomes db (student_id studentRow) (semester_of body)
                   (academic_year_of body) (body_notes body) ids of
              Inl e \<Rightarrow> (AllocateError 500 ''Failed to allocate units'' (message e), db)
            | Inr outs \<Rightarrow>
                (AllocateOk student (pushed_entries outs)
                   \<lparr>total_requested = length ids,
                    successfully_allocated = length (pushed_entries outs),
                    summary_errors = length (pushed_errors outs)\<rparr>
                   (if pushed_errors outs \<noteq> [] then Some (pushed_errors outs) else None),
                 db\<lparr>allocated_units := allocated_units db @ map fst (pushed_entries outs)\<rparr>))"
proof -
  from assms(3) obtain uid rest where ids: "ids = uid # rest" by (cases ids) auto
  show ?thesis
    by (simp add: allocate_units_def assms(1,2,4) ids allocate_loop_outcomes
        del: allocate_loop.simps allocation_outcomes.simps split: sum.splits)
qed


lemma pushed_entries_allocated:
  assumes "list_all2 (outcome_about db sid sem yr nt) ids outs" and "entry \<in> set (pushed_entries outs)"
  shows "au_status (fst entry) = Allocated"
  using assms
proof (induction ids outs rule: list_all2_induct)
  case Nil
  then show ?case by simp
next
  case (Cons uid ids out outs)
  then show ?case by (cases out; cases entry) auto
qed




lemmas run_allocate = allocate_units_def allocate_unit_def insert_allocated_unit_def
  select_student_by_reg_def select_student_by_id_def select_unit_def
  select_existing_allocation_def semester_of_def academic_year_of_def fresh_id_def int4_def
  stored_notes_def Let_def











text \<open>
  Claim C5, at a key whose only earlier allocation is cancelled. The handler's SELECT skips
  the cancelled row, the INSERT then violates \<^verbatim>\<open>unique_student_unit_semester\<close>, which
  counts the cancelled row, and \<^verbatim>\<open>sql.begin\<close> rolls the call back: the answer is 500 and
  nothing is allocated, neither the unit that was cancelled nor any other unit of the
  request.
\<close>

theorem allocate_units_after_cancellation:
  "allocate_units (demo_db\<lparr>allocated_units := [demo_allocation\<lparr>au_status := Cancelled\<rparr>]\<rparr>)
       ''CS/001/2021'' (demo_body [7])
     = (AllocateError 500 ''Failed to allocate units''
          (message (UniqueViolation ''unique_student_unit_semester'')),
        demo_db\<lparr>allocated_units := [demo_allocation\<lparr>au_status := Cancelled\<rparr>]\<rparr>)
   \<and> allocate_units (demo_db\<lparr>allocated_units := [demo_allocation\<lparr>au_status := Cancelled\<rparr>]\<rparr>)
       ''CS/001/2021'' (demo_body [8, 7])
     = (AllocateError 500 ''Failed to allocate units''
          (message (UniqueViolation ''unique_student_unit_semester'')),
        demo_db\<lparr>allocated_units := [demo_allocation\<lparr>au_status := Cancelled\<rparr>]\<rparr>)"
  by (simp add: demo run_allocate del: message.simps)

lemma fold_max_upper:
  "a \<le> fold max ids (a :: nat) \<and> (\<forall>x \<in> set ids. x \<le> fold max ids a)"
proof (induction ids arbitrary: a)
  case Nil
  show ?case by simp
next
  case (Cons y ys)
  from Cons.IH [of "max y a"] show ?case by auto
qed

lemma fresh_id_new: "fresh_id ids \<notin> set ids"
proof
  assume "fresh_id ids \<in> set ids"
  with fold_max_upper [of 0 ids] have "fresh_id ids \<le> fold max ids 0" by blast
  then show False by (simp add: fresh_id_def)
qed

lemma allocate_unit_fresh:
  assumes "allocate_unit db sid sem yr nt uid = Inr (out, db')"
    and "distinct (map au_id (allocated_units db))"
  shows "distinct (map au_id (allocated_units db'))"
proof (cases out)
  case (Inl err)
  with allocate_unit_database [OF assms(1)] assms(2) show ?thesis by simp
next
  case (Inr entry)
  obtain row name code where entry: "entry = (row, name, code)" by (cases entry)
  from assms(1) Inr entry
  have "insert_allocated_unit db sid uid sem yr nt = Inr (row, db')"
    by (auto simp: allocate_unit_def split: sum.splits list.splits)
  from insert_allocated_unit_row [OF this]
  have "au_id row = fresh_id (map au_id (allocated_units db))" by simp
  with fresh_id_new [of "map au_id (allocated_units db)"]
  have "au_id row \<notin> set (map au_id (allocated_units db))" by simp
  with allocate_unit_database [OF assms(1)] assms(2) Inr entry show ?thesis by simp
qed

lemma allocation_outcomes_fresh:
  assumes "allocation_outcomes db sid sem yr nt ids = Inr outs"
    and "distinct (map au_id (allocated_units db))"
  shows "distinct (map au_id (allocated_units db @ map fst (pushed_entries outs)))"
  using assms
proof (induction ids arbitrary: db outs)
  case Nil
  then show ?case by simp
next
  case (Cons uid rest)
  from Cons.prems(1) obtain out db' outs' where
    step: "allocate_unit db sid sem yr nt uid = Inr (out, db')"
    and tail: "allocation_outcomes db' sid sem yr nt rest = Inr outs'"
    and outs: "outs = out # outs'"
    by (auto split: sum.splits)
  from allocate_unit_database [OF step]
  have db': "allocated_units db' = allocated_units db @ map fst (pushed_entries [out])" by simp
  from Cons.IH [OF tail allocate_unit_fresh [OF step Cons.prems(2)]]
  have "distinct (map au_id (allocated_units db' @ map fst (pushed_entries outs')))" .
  moreover have "allocated_units db' @ map fst (pushed_entries outs')
      = allocated_units db @ map fst (pushed_entries outs)"
    unfolding db' outs by (cases out) simp_all
  ultimately show ?case by simp
qed

lemma allocate_units_database:
  "\<exists>rows. snd (allocate_units db regNumber body)
            = db\<lparr>allocated_units := allocated_units db @ rows\<rparr>
     \<and> (\<forall>row \<in> set rows. au_status row = Allocated)
     \<and> (distinct (map au_id (allocated_units db))
          \<longrightarrow> distinct (map au_id (allocated_units db @ rows)))"
proof -
  have same: "snd (allocate_units db regNumber body) = db
      \<Longrightarrow> snd (allocate_units db regNumber body) = db\<lparr>allocated_units := allocated_units db @ []\<rparr>
          \<and> (\<forall>row \<in> set ([] :: allocated_unit list). au_status row = Allocated)
          \<and> (distinct (map au_id (allocated_units db))
                \<longrightarrow> distinct (map au_id (allocated_units db @ [])))"
    by simp
  show ?thesis
  proof (cases "select_student_by_reg db regNumber")
    case Nil
    then have "snd (allocate_units db regNumber body) = db" by (simp add: allocate_units_def)
    from same [OF this] show ?thesis by (rule exI)
  next
    case student: (Cons studentRow others)
    show ?thesis
    proof (cases "unit_ids body")
      case None
      with student have "snd (allocate_units db regNumber body) = db"
        by (simp add: allocate_units_def)
      from same [OF this] show ?thesis by (rule exI)
    next
      case (Some ids)
      show ?thesis
      proof (cases ids)
        case Nil
        with student Some have "snd (allocate_units db regNumber body) = db"
          by (simp add: allocate_units_def)
        from same [OF this] show ?thesis by (rule exI)
      next
        case ids: (Cons uid rest)
        from select_student_by_id_found [OF student]
        obtain st extra where sel: "select_student_by_id db (student_id studentRow) = st # extra"
          by blast
        have nonempty: "ids \<noteq> []" using ids by simp
        note run = allocate_units_run [OF student Some nonempty sel]
        show ?thesis
        proof (cases "allocation_outcomes db (student_id studentRow) (semester_of body)
                   (academic_year_of body) (body_notes body) ids")
          case (Inl e)
          with run have "snd (allocate_units db regNumber body) = db" by simp
          from same [OF this] show ?thesis by (rule exI)
        next
          case (Inr outs)
          note about = allocation_outcomes_about [OF Inr]
          have "\<forall>row \<in> set (map fst (pushed_entries outs)). au_status row = Allocated"
            using pushed_entries_allocated [OF about] by auto
          moreover have "distinct (map au_id (allocated_units db))
             \<longrightarrow> distinct (map au_id (allocated_units db @ map fst (pushed_entries outs)))"
            using allocation_outcomes_fresh [OF Inr] by blast
          moreover from run Inr have "snd (allocate_units db regNumber body)
              = db\<lparr>allocated_units := allocated_units db @ map fst (pushed_entries outs)\<rparr>"
            by simp
          ultimately show ?thesis by blast
        qed
      qed
    qed
  qed
qed

lemma matched_append_allocated:
  assumes "registered_allocations_matched db" and "\<forall>row \<in> set rows. au_status row = Allocated"
  shows "registered_allocations_matched (db\<lparr>allocated_units := allocated_units db @ rows\<rparr>)"
  using assms unfolding registered_allocations_matched_def corresponds_def
  by (simp add: ball_Un)

lemma select_allocated_join_hd:
  assumes "select_allocated_join db aid sid = (a, u) # rest"
  shows "a \<in> set (allocated_units db) \<and> au_id a = aid \<and> au_student_id a = sid
         \<and> au_status a = Allocated \<and> u \<in> set (units db) \<and> unit_id u = au_unit_id a"
proof -
  from assms have "(a, u) \<in> set (select_allocated_join db aid sid)" by simp
  then show ?thesis by (auto simp: select_allocated_join_def)
qed

lemma matched_registered:
  assumes inv: "registered_allocations_matched db"
    and a: "a \<in> set (allocated_units db)" "au_student_id a = sid"
    and u: "u \<in> set (units db)" "unit_id u = au_unit_id a"
  shows "registered_allocations_matched
           (db\<lparr>allocated_units :=
                 map (\<lambda>x. if x = a then a\<lparr>au_status := Registered\<rparr> else x) (allocated_units db),
               registered_units := registered_units db @
                 [\<lparr>ru_id = i, ru_student_id = sid, ru_unit_name = n,
                   ru_unit_code = unit_code u, ru_status = st\<rparr>]\<rparr>)"
    (is "registered_allocations_matched ?db'")
proof -
  let ?upd = "\<lambda>x. if x = a then a\<lparr>au_status := Registered\<rparr> else x"
  let ?new = "\<lparr>ru_id = i, ru_student_id = sid, ru_unit_name = n,
                ru_unit_code = unit_code u, ru_status = st\<rparr>"
  have corr: "corresponds ?db' (?upd x) r = corresponds db x r" for x r
    by (simp add: corresponds_def)
  have corr_new: "corresponds db a ?new"
    using a u by (auto simp: corresponds_def filter_empty_conv)
  have "\<exists>r \<in> set (registered_units ?db'). corresponds ?db' y r"
    if y: "y \<in> set (allocated_units ?db')" and st: "au_status y = Registered" for y
  proof -
    from y obtain x where x: "x \<in> set (allocated_units db)" "y = ?upd x" by auto
    show ?thesis
    proof (cases "x = a")
      case True
      with corr_new have "corresponds ?db' (?upd x) ?new" by (simp only: corr)
      moreover have "?new \<in> set (registered_units ?db')" by simp
      ultimately show ?thesis using x(2) by blast
    next
      case False
      with x(2) st have "au_status x = Registered" by simp
      with inv x(1) obtain r where r: "r \<in> set (registered_units db)" "corresponds db x r"
        unfolding registered_allocations_matched_def by blast
      from r(2) have "corresponds ?db' (?upd x) r" by (simp only: corr)
      moreover from r(1) have "r \<in> set (registered_units ?db')" by simp
      ultimately show ?thesis using x(2) by blast
    qed
  qed
  then show ?thesis
    unfolding registered_allocations_matched_def by blast
qed

lemma register_transaction_effect:
  "(\<exists>e. register_transaction faults aid sid u db = Inl e)
   \<or> register_transaction faults aid sid u db = register_transaction no_faults aid sid u db"
  by (cases "update_fault faults"; cases "insert_fault faults")
    (simp_all add: register_transaction_def update_allocated_status_def
      insert_registered_unit_def no_faults_def)

text \<open>
  What the registration of an allocated unit does to the database: nothing, or both writes
  on the pair of the allocation \<open>a\<close> it names.
\<close>

lemma register_allocated_unit_effect:
  assumes dist: "distinct (map au_id (allocated_units db))"
  shows "snd (register_allocated_unit faults db regNumber allocated_unit_id) = db
     \<or> (\<exists>a \<in> set (allocated_units db). \<exists>u \<in> set (units db).
          au_status a = Allocated \<and> unit_id u = au_unit_id a
          \<and> snd (register_allocated_unit faults db regNumber allocated_unit_id)
              = db\<lparr>allocated_units :=
                     map (\<lambda>x. if x = a then a\<lparr>au_status := Registered\<rparr> else x) (allocated_units db),
                   registered_units := registered_units db @
                     [\<lparr>ru_id = fresh_id (map ru_id (registered_units db)),
                       ru_student_id = au_student_id a, ru_unit_name = unit_name u,
                       ru_unit_code = unit_code u, ru_status = ''registered''\<rparr>]\<rparr>)"
proof (cases allocated_unit_id)
  case None
  then show ?thesis by (simp add: register_allocated_unit_def)
next
  case (Some aid)
  show ?thesis
  proof (cases "select_student_by_reg db regNumber")
    case Nil
    with Some show ?thesis by (simp add: register_allocated_unit_def)
  next
    case student: (Cons s others)
    show ?thesis
    proof (cases "select_allocated_join db aid (student_id s)")
      case Nil
      with Some student show ?thesis by (simp add: register_allocated_unit_def)
    next
      case join: (Cons p rest)
      obtain a u where p: "p = (a, u)" by (cases p)
      from select_allocated_join_hd [OF join [unfolded p]]
      have a: "a \<in> set (allocated_units db)" "au_id a = aid" "au_student_id a = student_id s"
        "au_status a = Allocated" and u: "u \<in> set (units db)" "unit_id u = au_unit_id a"
        by simp_all
      show ?thesis
      proof (cases "select_registered db (student_id s) (unit_code u)")
        case (Cons r rs)
        with Some student join p show ?thesis by (simp add: register_allocated_unit_def)
      next
        case Nil
        from register_transaction_effect [of faults aid "student_id s" u db]
        show ?thesis
        proof
          assume "\<exists>e. register_transaction faults aid (student_id s) u db = Inl e"
          then obtain e where "register_transaction faults aid (student_id s) u db = Inl e" ..
          with Some student join p Nil show ?thesis by (simp add: register_allocated_unit_def)
        next
          assume "register_transaction faults aid (student_id s) u db
                    = register_transaction no_faults aid (student_id s) u db"
          with Some student join p Nil
          have run: "snd (register_allocated_unit faults db regNumber allocated_unit_id)
              = db\<lparr>allocated_units :=
                     map (\<lambda>x. if au_id x = aid then x\<lparr>au_status := Registered\<rparr> else x) (allocated_units db),
                   registered_units := registered_units db @
                     [\<lparr>ru_id = fresh_id (map ru_id (registered_units db)),
                       ru_student_id = student_id s, ru_unit_name = unit_name u,
                       ru_unit_code = unit_code u, ru_status = ''registered''\<rparr>]\<rparr>"
            by (simp add: register_allocated_unit_def register_transaction_commits)
          have upd: "map (\<lambda>x. if au_id x = aid then x\<lparr>au_status := Registered\<rparr> else x) (allocated_units db)
              = map (\<lambda>x. if x = a then a\<lparr>au_status := Registered\<rparr> else x) (allocated_units db)"
            using map_update_row [OF dist a(1), of "\<lambda>x. x\<lparr>au_status := Registered\<rparr>"] a(2) by simp
          have "snd (register_allocated_unit faults db regNumber allocated_unit_id)
              = db\<lparr>allocated_units :=
                     map (\<lambda>x. if x = a then a\<lparr>au_status := Registered\<rparr> else x) (allocated_units db),
                   registered_units := registered_units db @
                     [\<lparr>ru_id = fresh_id (map ru_id (registered_units db)),
                       ru_student_id = au_student_id a, ru_unit_name = unit_name u,
                       ru_unit_code = unit_code u, ru_status = ''registered''\<rparr>]\<rparr>"
            by (simp only: run upd a(3))
          with a(1,4) u show ?thesis
            by (intro disjI2 bexI [of _ a] bexI [of _ u]) simp_all
        qed
      qed
    qed
  qed
qed

lemma matched_insert_unit:
  assumes "registered_allocations_matched db"
  shows "registered_allocations_matched (insert_unit db name code)"
proof -
  have "corresponds (insert_unit db name code) a r" if "corresponds db a r" for a r
    using that by (auto simp: corresponds_def insert_unit_def)
  with assms show ?thesis
    unfolding registered_allocations_matched_def by (simp add: insert_unit_def) blast
qed

lemma matched_append_registered:
  assumes "registered_allocations_matched db"
  shows "registered_allocations_matched (db\<lparr>registered_units := registered_units db @ rows\<rparr>)"
  using assms unfolding registered_allocations_matched_def corresponds_def
  by (simp add: bex_Un)

lemma register_unit_database:
  "\<exists>db1 rows. (db1 = db \<or> (\<exists>name code. db1 = insert_unit db name code))
       \<and> snd (register_unit db body) = db1\<lparr>registered_units := registered_units db1 @ rows\<rparr>"
proof -
  have trivial: ?thesis if "snd (register_unit db body) = db"
  proof -
    from that have "snd (register_unit db body) = db\<lparr>registered_units := registered_units db @ []\<rparr>"
      by simp
    then show ?thesis by blast
  qed
  show ?thesis
  proof (cases "body_student_reg body")
    case None
    then have "snd (register_unit db body) = db"
      by (simp add: register_unit_def)
    then show ?thesis by (rule trivial)
  next
    case reg: (Some student_reg)
    show ?thesis
    proof (cases "body_unit_name body")
      case None
      with reg have "snd (register_unit db body) = db"
        by (simp add: register_unit_def)
      then show ?thesis by (rule trivial)
    next
      case name: (Some name)
      show ?thesis
      proof (cases "body_unit_code body")
        case None
        with reg name have "snd (register_unit db body) = db"
          by (simp add: register_unit_def)
        then show ?thesis by (rule trivial)
      next
        case code: (Some code)
        show ?thesis
        proof (cases "student_reg = [] \<or> name = [] \<or> code = []")
          case True
          with reg name code have "snd (register_unit db body) = db"
            by (auto simp: register_unit_def)
          then show ?thesis by (rule trivial)
        next
          case False
          show ?thesis
          proof (cases "select_student_by_reg db student_reg")
            case Nil
            with reg name code False have "snd (register_unit db body) = db"
              by (simp add: register_unit_def)
            then show ?thesis by (rule trivial)
          next
            case (Cons studentRow others)
            define db1 where "db1 = (if filter (\<lambda>u. unit_code u = code) (units db) = []
                           then insert_unit db name code else db)"
            have db1: "db1 = db \<or> (\<exists>name code. db1 = insert_unit db name code)"
              unfolding db1_def by auto
            show ?thesis
            proof (cases "select_registered db1 (student_id studentRow) code")
              case existing: (Cons r rs)
              with reg name code False Cons
              have "snd (register_unit db body) = db1"
                by (simp add: register_unit_def db1_def Let_def)
              then have "snd (register_unit db body)
                  = db1\<lparr>registered_units := registered_units db1 @ []\<rparr>" by simp
              with db1 show ?thesis by blast
            next
              case Nil
              with reg name code False Cons
              have "snd (register_unit db body)
                  = db1\<lparr>registered_units := registered_units db1 @
                     [\<lparr>ru_id = fresh_id (map ru_id (registered_units db1)),
                       ru_student_id = student_id studentRow, ru_unit_name = name,
                       ru_unit_code = code,
                       ru_status = (case body_status body of None \<Rightarrow> ''active'' | Some v \<Rightarrow> v)\<rparr>]\<rparr>"
                by (simp add: register_unit_def db1_def [symmetric] Let_def
                    insert_registered_unit_def)
              with db1 show ?thesis by blast
            qed
          qed
        qed
      qed
    qed
  qed
qed

lemma reachable_invariant:
  assumes "reachable db"
  shows "registered_allocations_matched db \<and> distinct (map au_id (allocated_units db))"
  using assms
proof (induction rule: reachable.induct)
  case (initial db)
  then show ?case by (simp add: registered_allocations_matched_def)
next
  case (allocated db regNumber body)
  from allocate_units_database [of db regNumber body]
  obtain rows where "snd (allocate_units db regNumber body)
            = db\<lparr>allocated_units := allocated_units db @ rows\<rparr>"
    and "\<forall>row \<in> set rows. au_status row = Allocated"
    and "distinct (map au_id (allocated_units db))
          \<longrightarrow> distinct (map au_id (allocated_units db @ rows))"
    by blast
  with allocated.IH matched_append_allocated [of db rows] show ?case by simp
next
  case (registered db faults regNumber allocated_unit_id)
  then have inv: "registered_allocations_matched db"
    and dist: "distinct (map au_id (allocated_units db))" by simp_all
  from register_allocated_unit_effect [OF dist, of faults regNumber allocated_unit_id]
  show ?case
  proof
    assume "snd (register_allocated_unit faults db regNumber allocated_unit_id) = db"
    with inv dist show ?thesis by simp
  next
    assume "\<exists>a \<in> set (allocated_units db). \<exists>u \<in> set (units db).
          au_status a = Allocated \<and> unit_id u = au_unit_id a
          \<and> snd (register_allocated_unit faults db regNumber allocated_unit_id)
              = db\<lparr>allocated_units :=
                     map (\<lambda>x. if x = a then a\<lparr>au_status := Registered\<rparr> else x) (allocated_units db),
                   registered_units := registered_units db @
                     [\<lparr>ru_id = fresh_id (map ru_id (registered_units db)),
                       ru_student_id = au_student_id a, ru_unit_name = unit_name u,
                       ru_unit_code = unit_code u, ru_status = ''registered''\<rparr>]\<rparr>"
    then obtain a u where a: "a \<in> set (allocated_units db)" and u: "u \<in> set (units db)"
      "unit_id u = au_unit_id a"
      and run: "snd (register_allocated_unit faults db regNumber allocated_unit_id)
              = db\<lparr>allocated_units :=
                     map (\<lambda>x. if x = a then a\<lparr>au_status := Registered\<rparr> else x) (allocated_units db),
                   registered_units := registered_units db @
                     [\<lparr>ru_id = fresh_id (map ru_id (registered_units db)),
                       ru_student_id = au_student_id a, ru_unit_name = unit_name u,
                       ru_unit_code = unit_code u, ru_status = ''registered''\<rparr>]\<rparr>"
      by blast
    have "map au_id (map (\<lambda>x. if x = a then a\<lparr>au_status := Registered\<rparr> else x) xs)
        = map au_id xs" for xs
      by (induction xs) auto
    then have "distinct (map au_id
        (map (\<lambda>x. if x = a then a\<lparr>au_status := Registered\<rparr> else x) (allocated_units db)))"
      using dist by (simp only:)
    moreover have "allocated_units (snd (register_allocated_unit faults db regNumber allocated_unit_id))
        = map (\<lambda>x. if x = a then a\<lparr>au_status := Registered\<rparr> else x) (allocated_units db)"
      by (simp add: run)
    ultimately have "distinct (map au_id
        (allocated_units (snd (register_allocated_unit faults db regNumber allocated_unit_id))))"
      by (simp only:)
    moreover from matched_registered [OF inv a refl u]
    have "registered_allocations_matched
        (snd (register_allocated_unit faults db regNumber allocated_unit_id))"
      by (simp only: run)
    ultimately show ?thesis by blast
  qed
next
  case (direct db body)
  then have inv: "registered_allocations_matched db"
    and dist: "distinct (map au_id (allocated_units db))" by simp_all
  from register_unit_database [of db body]
  obtain db1 rows where db1: "db1 = db \<or> (\<exists>name code. db1 = insert_unit db name code)"
    and run: "snd (register_unit db body) = db1\<lparr>registered_units := registered_units db1 @ rows\<rparr>"
    by blast
  from db1 inv have "registered_allocations_matched db1"
    by (auto simp: matched_insert_unit)
  moreover from db1 have "allocated_units db1 = allocated_units db"
    by (auto simp: insert_unit_def)
  ultimately show ?case
    using dist matched_append_registered [of db1 rows] by (simp add: run)
qed

lemmas run_register_unit = register_unit_def insert_unit_def insert_registered_unit_def
  select_student_by_reg_def select_registered_def fresh_id_def Let_def

lemmas run_register = register_allocated_unit_def select_student_by_reg_def
  select_allocated_join_def select_registered_def register_transaction_def
  update_allocated_status_def insert_registered_unit_def no_faults_def fresh_id_def Let_def

lemma demo_first_term:
  "demo_first_term = demo_start\<lparr>allocated_units :=
     [\<lparr>au_id = 1, au_student_id = 1, au_unit_id = 7, au_semester = 1,
       au_academic_year = ''2024/2025'', au_status = Allocated,
       au_notes = Some ''second intake''\<rparr>]\<rparr>"
  by (simp add: demo_first_term_def demo run_allocate)

lemma demo_both_terms:
  "demo_both_terms = demo_start\<lparr>allocated_units :=
     [\<lparr>au_id = 1, au_student_id = 1, au_unit_id = 7, au_semester = 1,
       au_academic_year = ''2024/2025'', au_status = Allocated,
       au_notes = Some ''second intake''\<rparr>,
      \<lparr>au_id = 2, au_student_id = 1, au_unit_id = 7, au_semester = 2,
       au_academic_year = ''2025/2026'', au_status = Allocated, au_notes = None\<rparr>]\<rparr>"
  by (simp add: demo_both_terms_def demo_first_term) (simp add: demo run_allocate)

lemma demo_first_registered:
  "demo_first_registered = demo_start\<lparr>allocated_units :=
     [\<lparr>au_id = 1, au_student_id = 1, au_unit_id = 7, au_semester = 1,
       au_academic_year = ''2024/2025'', au_status = Registered,
       au_notes = Some ''second intake''\<rparr>],
     registered_units := [\<lparr>ru_id = 1, ru_student_id = 1, ru_unit_name = ''Data Structures'',
       ru_unit_code = ''CS101'', ru_status = ''registered''\<rparr>]\<rparr>"
  by (simp add: demo_first_registered_def demo_first_term) (simp add: demo run_register)

lemma demo_reachable:
  "reachable demo_first_term" "reachable demo_both_terms" "reachable demo_first_registered"
proof -
  have start: "reachable demo_start"
    by (rule reachable.initial) (simp_all add: demo)
  show first: "reachable demo_first_term"
    unfolding demo_first_term_def by (rule reachable.allocated [OF start])
  show "reachable demo_both_terms"
    unfolding demo_both_terms_def by (rule reachable.allocated [OF first])
  show "reachable demo_first_registered"
    unfolding demo_first_registered_def by (rule reachable.registered [OF first])
qed

text \<open>
  Claim C9 as stated fails in its first half, after each of the three operations. From
  the state in which CS101 is allocated to the student for one term, a direct registration
  of CS101 with status \<^verbatim>\<open>registered\<close> leaves the allocation in status \<^verbatim>\<open>allocated\<close>. From
  the state in which CS101 is allocated for two terms, registering the first allocation
  leaves the second in status \<^verbatim>\<open>allocated\<close>. From the state in which the first allocation
  is registered, a bulk allocation of CS101 for the second term adds an allocation in status
  \<^verbatim>\<open>allocated\<close>. Each time the student has a registered unit CS101 in status
  \<^verbatim>\<open>registered\<close> and an allocation of CS101 that is not.
\<close>

theorem registered_unit_beside_open_allocation:
  "reachable demo_first_term \<and> pair_invariant demo_first_term
   \<and> map au_status (allocated_units (snd (register_unit demo_first_term
          (demo_registration (Some ''registered''))))) = [Allocated]
   \<and> map ru_status (registered_units (snd (register_unit demo_first_term
          (demo_registration (Some ''registered''))))) = [''registered'']
   \<and> \<not> registered_units_paired (snd (register_unit demo_first_term
          (demo_registration (Some ''registered''))))
   \<and> reachable demo_both_terms \<and> pair_invariant demo_both_terms
   \<and> map au_status (allocated_units (snd (register_allocated_unit no_faults demo_both_terms
          ''CS/001/2021'' (Some 1)))) = [Registered, Allocated]
   \<and> map ru_status (registered_units (snd (register_allocated_unit no_faults demo_both_terms
          ''CS/001/2021'' (Some 1)))) = [''registered'']
   \<and> \<not> registered_units_paired (snd (register_allocated_unit no_faults demo_both_terms
          ''CS/001/2021'' (Some 1)))
   \<and> reachable demo_first_registered \<and> pair_invariant demo_first_registered
   \<and> map au_status (allocated_units (snd (allocate_units demo_first_registered
          ''CS/001/2021'' (demo_second_body [7])))) = [Registered, Allocated]
   \<and> map ru_status (registered_units (snd (allocate_units demo_first_registered
          ''CS/001/2021'' (demo_second_body [7])))) = [''registered'']
   \<and> \<not> registered_units_paired (snd (allocate_units demo_first_registered
          ''CS/001/2021'' (demo_second_body [7])))"
proof -
  have inv: "pair_invariant demo_first_term" "pair_invariant demo_both_terms"
    "pair_invariant demo_first_registered"
    by (simp_all add: demo_first_term demo_both_terms demo_first_registered demo
        pair_invariant_def registered_units_paired_def registered_allocations_matched_def
        corresponds_def)
  have direct: "snd (register_unit demo_first_term (demo_registration (Some ''registered'')))
      = demo_first_term\<lparr>registered_units :=
          [\<lparr>ru_id = 1, ru_student_id = 1, ru_unit_name = ''Data Structures'',
            ru_unit_code = ''CS101'', ru_status = ''registered''\<rparr>]\<rparr>"
    by (simp add: demo_first_term) (simp add: demo run_register_unit)
  have register: "snd (register_allocated_unit no_faults demo_both_terms ''CS/001/2021'' (Some 1))
      = demo_start\<lparr>allocated_units :=
          [\<lparr>au_id = 1, au_student_id = 1, au_unit_id = 7, au_semester = 1,
            au_academic_year = ''2024/2025'', au_status = Registered,
            au_notes = Some ''second intake''\<rparr>,
           \<lparr>au_id = 2, au_student_id = 1, au_unit_id = 7, au_semester = 2,
            au_academic_year = ''2025/2026'', au_status = Allocated, au_notes = None\<rparr>],
          registered_units := [\<lparr>ru_id = 1, ru_student_id = 1, ru_unit_name = ''Data Structures'',
            ru_unit_code = ''CS101'', ru_status = ''registered''\<rparr>]\<rparr>"
    by (simp add: demo_both_terms) (simp add: demo run_register)
  have allocate: "snd (allocate_units demo_first_registered ''CS/001/2021'' (demo_second_body [7]))
      = demo_start\<lparr>allocated_units :=
          [\<lparr>au_id = 1, au_student_id = 1, au_unit_id = 7, au_semester = 1,
            au_academic_year = ''2024/2025'', au_status = Registered,
            au_notes = Some ''second intake''\<rparr>,
           \<lparr>au_id = 2, au_student_id = 1, au_unit_id = 7, au_semester = 2,
            au_academic_year = ''2025/2026'', au_status = Allocated, au_notes = None\<rparr>],
          registered_units := [\<lparr>ru_id = 1, ru_student_id = 1, ru_unit_name = ''Data Structures'',
            ru_unit_code = ''CS101'', ru_status = ''registered''\<rparr>]\<rparr>"
    by (simp add: demo_first_registered) (simp add: demo run_allocate)
  have broken: "\<not> registered_units_paired (snd (register_unit demo_first_term
          (demo_registration (Some ''registered''))))"
    "\<not> registered_units_paired (snd (register_allocated_unit no_faults demo_both_terms
          ''CS/001/2021'' (Some 1)))"
    "\<not> registered_units_paired (snd (allocate_units demo_first_registered
          ''CS/001/2021'' (demo_second_body [7])))"
    by (simp_all only: direct register allocate)
      (simp_all add: demo_first_term demo registered_units_paired_def corresponds_def)
  have tables: "map au_status (allocated_units (snd (register_unit demo_first_term
          (demo_registration (Some ''registered''))))) = [Allocated]"
    "map ru_status (registered_units (snd (register_unit demo_first_term
          (demo_registration (Some ''registered''))))) = [''registered'']"
    "map au_status (allocated_units (snd (register_allocated_unit no_faults demo_both_terms
          ''CS/001/2021'' (Some 1)))) = [Registered, Allocated]"
    "map ru_status (registered_units (snd (register_allocated_unit no_faults demo_both_terms
          ''CS/001/2021'' (Some 1)))) = [''registered'']"
    "map au_status (allocated_units (snd (allocate_units demo_first_registered
          ''CS/001/2021'' (demo_second_body [7])))) = [Registered, Allocated]"
    "map ru_status (registered_units (snd (allocate_units demo_first_registered
          ''CS/001/2021'' (demo_second_body [7])))) = [''registered'']"
    by (simp_all only: direct register allocate) (simp_all add: demo_first_term)
  from demo_reachable inv broken tables show ?thesis by (intro conjI)
qed

text \<open>
  Claim C9, amended. In every state that bulk allocation, the registration of an allocated
  unit and direct unit registration reach from a database in which nothing is allocated or
  registered, every allocation in status \<^verbatim>\<open>registered\<close> has a corresponding registered
  unit. The registration of an allocated unit, called in such a state, leaves the database
  as it was or does both writes on one pair: it sets one allocation, which was in status
  \<^verbatim>\<open>allocated\<close>, to \<^verbatim>\<open>registered\<close> and appends one registered unit of the same student,
  with the name and the code of the unit of that allocation and the status
  \<^verbatim>\<open>registered\<close>.
\<close>

theorem registered_allocation_has_registered_unit:
  assumes "reachable db"
  shows "registered_allocations_matched db
     \<and> (snd (register_allocated_unit faults db regNumber allocated_unit_id) = db
        \<or> (\<exists>a \<in> set (allocated_units db). \<exists>u \<in> set (units db).
             au_status a = Allocated \<and> unit_id u = au_unit_id a
             \<and> snd (register_allocated_unit faults db regNumber allocated_unit_id)
                 = db\<lparr>allocated_units :=
                        map (\<lambda>x. if x = a then a\<lparr>au_status := Registered\<rparr> else x)
                          (allocated_units db),
                      registered_units := registered_units db @
                        [\<lparr>ru_id = fresh_id (map ru_id (registered_units db)),
                          ru_student_id = au_student_id a, ru_unit_name = unit_name u,
                          ru_unit_code = unit_code u, ru_status = ''registered''\<rparr>]\<rparr>))"
proof -
  from reachable_invariant [OF assms]
  have inv: "registered_allocations_matched db"
    and dist: "distinct (map au_id (allocated_units db))" by simp_all
  from inv register_allocated_unit_effect [OF dist, of faults regNumber allocated_unit_id]
  show ?thesis by (rule conjI)
qed

theorem registered_allocation_has_registered_unit_witness:
  "registered_allocations_matched demo_first_registered
   \<and> map au_status (allocated_units demo_first_registered) = [Registered]
   \<and> map ru_status (registered_units demo_first_registered) = [''registered'']
   \<and> snd (register_allocated_unit no_faults demo_first_term ''CS/001/2021'' (Some 1))
       = demo_first_term\<lparr>allocated_units :=
           [\<lparr>au_id = 1, au_student_id = 1, au_unit_id = 7, au_semester = 1,
             au_academic_year = ''2024/2025'', au_status = Registered,
             au_notes = Some ''second intake''\<rparr>],
           registered_units := [\<lparr>ru_id = 1, ru_student_id = 1,
             ru_unit_name = ''Data Structures'', ru_unit_code = ''CS101'',
             ru_status = ''registered''\<rparr>]\<rparr>
   \<and> snd (register_allocated_unit insert_broken demo_first_term ''CS/001/2021'' (Some 1))
       = demo_first_term"
proof -
  have run: "snd (register_allocated_unit no_faults demo_first_term ''CS/001/2021'' (Some 1))
       = demo_first_term\<lparr>allocated_units :=
           [\<lparr>au_id = 1, au_student_id = 1, au_unit_id = 7, au_semester = 1,
             au_academic_year = ''2024/2025'', au_status = Registered,
             au_notes = Some ''second intake''\<rparr>],
           registered_units := [\<lparr>ru_id = 1, ru_student_id = 1,
             ru_unit_name = ''Data Structures'', ru_unit_code = ''CS101'',
             ru_status = ''registered''\<rparr>]\<rparr>"
    "snd (register_allocated_unit insert_broken demo_first_term ''CS/001/2021'' (Some 1))
       = demo_first_term"
    by (simp_all add: demo_first_term) (simp_all add: demo run_register)
  have tables: "map au_status (allocated_units demo_first_registered) = [Registered]"
    "map ru_status (registered_units demo_first_registered) = [''registered'']"
    by (simp_all add: demo_first_registered)
  from registered_allocation_has_registered_unit [OF demo_reachable(3), of no_faults "''x''" None]
    registered_allocation_has_registered_unit [OF demo_reachable(1), of insert_broken
      "''CS/001/2021''" "Some 1"]
  have "registered_allocations_matched demo_first_registered" by blast
  with run tables show ?thesis by (intro conjI)
qed

lemmas run_upload = handleFileUpload_def store_file_def supabase_upload_def saveFileLocally_def
  insert_student_document_def cleanup_blob_def isSupabaseConfigured_def
  is_set_def fresh_id_def Let_def

lemma decimal_demo: "decimal 1718000000000 = ''1718000000000''"
  by (simp add: decimal.simps digit_char_def)

lemma encodeURI_unescaped:
  assumes "list_all uri_unescaped s"
  shows "encodeURI s = s"
  using assms by (induction s) (simp_all add: encodeURI_def encode_char_def)

lemma encodeURI_demo:
  "encodeURI ''https://portal.supabase.co/storage/v1/object/public/student-documents/exam-card/CS/001/2021_1718000000000.pdf''
     = ''https://portal.supabase.co/storage/v1/object/public/student-documents/exam-card/CS/001/2021_1718000000000.pdf''"
  "encodeURI ''https://portal.supabase.co/storage/v1/object/public/student-documents/fees-statement/CS/009/2021_1718000000000.pdf''
     = ''https://portal.supabase.co/storage/v1/object/public/student-documents/fees-statement/CS/009/2021_1718000000000.pdf''"
  by (rule encodeURI_unescaped, simp add: uri_unescaped_def)+

lemma encodeURI_blank: "encodeURI ''a b'' = ''a%20b''"
  by (simp add: encodeURI_def encode_char_def uri_unescaped_def percent_byte_def)

lemma encodeURI_latin: "encodeURI [CHR 0xE9] = ''%C3%A9''"
  by (simp add: encodeURI_def encode_char_def uri_unescaped_def percent_byte_def)

lemma trim_demo: "trim (CHR 0xA0 # '' CS/009/2021 '') = ''CS/009/2021''"
  by (simp add: trim_def is_space_def)


lemma long_key_demo:
  "object_key demo_env long_registration demo_file ''exam-card''
     = ''exam-card/'' @ long_registration @ ''_1718000000000.pdf''"
  by (simp add: object_key_def demo_env_def demo_file_def decimal_demo file_extension_def)

text \<open>
  Claim C2, at an INSERT that raises. The registration number has 51 characters, one more
  than the column takes: the file is stored (in the bucket, or under \<^verbatim>\<open>uploads\<close> when the
  remote store is not configured), the INSERT raises, and \<^verbatim>\<open>handleFileUpload\<close> rethrows
  the error with the stored blob still in place. The clean-up is behind
  \<^verbatim>\<open>rows.length === 0\<close>, which a raising INSERT never reaches.
\<close>

theorem insert_error_leaves_blob:
  "handleFileUpload demo_env demo_db empty_stores long_registration demo_file ''exam-card''
     = (Inl ''value too long for type character varying(50)'', demo_db,
        empty_stores\<lparr>remote_objects :=
          [''exam-card/'' @ long_registration @ ''_1718000000000.pdf'' \<mapsto> file_bytes demo_file]\<rparr>)
   \<and> handleFileUpload (demo_env\<lparr>supabase_url := None\<rparr>) demo_db empty_stores long_registration
        demo_file ''exam-card''
     = (Inl ''value too long for type character varying(50)'', demo_db,
        empty_stores\<lparr>local_files :=
          [''exam-card/'' @ long_registration @ ''_1718000000000.pdf'' \<mapsto> file_bytes demo_file]\<rparr>)"
proof -
  have key: "object_key (demo_env\<lparr>supabase_url := None\<rparr>) long_registration demo_file ''exam-card''
     = ''exam-card/'' @ long_registration @ ''_1718000000000.pdf''"
    by (simp add: object_key_def demo_env_def demo_file_def decimal_demo file_extension_def)
  have len: "length long_registration = 51" by (simp add: long_registration_def)
  show ?thesis
    by (simp add: handleFileUpload_def Let_def long_key_demo key)
      (simp add: run_upload demo_env_def empty_stores_def len)
qed


text \<open>
  The clean-up itself, on an INSERT that returns no row: the stored object is removed and
  the call raises \<^verbatim>\<open>Database insertion failed\<close>; when the removal raises, the object
  stays and the call raises the same error.
\<close>

lemma cleanup_after_empty_result:
  "fst (handleFileUpload (demo_env\<lparr>insert_behaviour := ReturnsNoRows\<rparr>) demo_db empty_stores
          long_registration demo_file ''exam-card'') = Inl ''Database insertion failed''"
  "remote_objects (snd (snd (handleFileUpload (demo_env\<lparr>insert_behaviour := ReturnsNoRows\<rparr>)
          demo_db empty_stores long_registration demo_file ''exam-card'')))
     (''exam-card/'' @ long_registration @ ''_1718000000000.pdf'') = None"
  "fst (handleFileUpload
          (demo_env\<lparr>insert_behaviour := ReturnsNoRows, remove_error := Some ''fetch failed''\<rparr>)
          demo_db empty_stores long_registration demo_file ''exam-card'')
     = Inl ''Database insertion failed''"
  "remote_objects (snd (snd (handleFileUpload
          (demo_env\<lparr>insert_behaviour := ReturnsNoRows, remove_error := Some ''fetch failed''\<rparr>)
          demo_db empty_stores long_registration demo_file ''exam-card'')))
     (''exam-card/'' @ long_registration @ ''_1718000000000.pdf'') = Some (file_bytes demo_file)"
proof -
  have key: "object_key (demo_env\<lparr>insert_behaviour := ReturnsNoRows\<rparr>) long_registration
        demo_file ''exam-card'' = ''exam-card/'' @ long_registration @ ''_1718000000000.pdf''"
    "object_key (demo_env\<lparr>insert_behaviour := ReturnsNoRows, remove_error := Some ''fetch failed''\<rparr>)
        long_registration demo_file ''exam-card''
      = ''exam-card/'' @ long_registration @ ''_1718000000000.pdf''"
    by (simp_all add: object_key_def demo_env_def demo_file_def decimal_demo file_extension_def)
  show "fst (handleFileUpload (demo_env\<lparr>insert_behaviour := ReturnsNoRows\<rparr>) demo_db empty_stores
          long_registration demo_file ''exam-card'') = Inl ''Database insertion failed''"
    by (simp add: handleFileUpload_def Let_def key)
      (simp add: run_upload demo_env_def empty_stores_def)
  show "remote_objects (snd (snd (handleFileUpload (demo_env\<lparr>insert_behaviour := ReturnsNoRows\<rparr>)
          demo_db empty_stores long_registration demo_file ''exam-card'')))
     (''exam-card/'' @ long_registration @ ''_1718000000000.pdf'') = None"
    by (simp add: handleFileUpload_def Let_def key)
      (simp add: run_upload demo_env_def empty_stores_def)
  show "fst (handleFileUpload
          (demo_env\<lparr>insert_behaviour := ReturnsNoRows, remove_error := Some ''fetch failed''\<rparr>)
          demo_db empty_stores long_registration demo_file ''exam-card'')
     = Inl ''Database insertion failed''"
    by (simp add: handleFileUpload_def Let_def key)
      (simp add: run_upload demo_env_def empty_stores_def)
  show "remote_objects (snd (snd (handleFileUpload
          (demo_env\<lparr>insert_behaviour := ReturnsNoRows, remove_error := Some ''fetch failed''\<rparr>)
          demo_db empty_stores long_registration demo_file ''exam-card'')))
     (''exam-card/'' @ long_registration @ ''_1718000000000.pdf'') = Some (file_bytes demo_file)"
    by (simp add: handleFileUpload_def Let_def key)
      (simp add: run_upload demo_env_def empty_stores_def)
qed

text \<open>
  Claim C6 as stated fails when the local write fails too: with the remote store not
  configured, or with a remote upload that fails, a read-only file system makes
  \<^verbatim>\<open>saveFileLocally\<close> raise, and \<^verbatim>\<open>handleFileUpload\<close> raises with it.
\<close>

theorem local_fallback_can_fail:
  "handleFileUpload
     (demo_env\<lparr>supabase_url := None, local_write_error := Some ''EROFS: read-only file system''\<rparr>)
     demo_db empty_stores ''CS/001/2021'' demo_file ''exam-card''
     = (Inl ''Local storage failed: EROFS: read-only file system'', demo_db, empty_stores)
   \<and> handleFileUpload
     (demo_env\<lparr>upload_error := Some ''fetch failed'',
               local_write_error := Some ''EROFS: read-only file system''\<rparr>)
     demo_db empty_stores ''CS/001/2021'' demo_file ''exam-card''
     = (Inl ''Local storage failed: EROFS: read-only file system'', demo_db, empty_stores)"
  by (simp add: run_upload demo_env_def empty_stores_def)

lemma store_file_falls_back:
  assumes "\<not> isSupabaseConfigured env \<or> supabase_upload env stores file fileName = Inl supabaseError"
  shows "store_file env stores file fileName =
           (case saveFileLocally env stores file fileName of
              Inl e \<Rightarrow> Inl e
            | Inr (fileUrl, stores') \<Rightarrow> Inr (fileUrl, ''local'', stores'))"
  using assms by (auto simp: store_file_def)

text \<open>
  Claim C6, amended. When the remote store is not configured, or the remote path raises,
  \<^verbatim>\<open>handleFileUpload\<close> writes the bytes under the local uploads directory at the same
  object key. If that write succeeds and the row is inserted, the call succeeds with the URL
  \<^verbatim>\<open>/uploads/\<close> followed by the key and the storage method \<^verbatim>\<open>local\<close>; if the local write
  fails (or the file cannot be read), the call raises \<^verbatim>\<open>Local storage failed\<close> and nothing
  is stored.
\<close>

theorem upload_falls_back_to_local:
  assumes "\<not> isSupabaseConfigured env
           \<or> supabase_upload env stores file (object_key env registrationNumber file documentType)
               = Inl supabaseError"
  shows "(local_write_error env = None \<and> array_buffer_error env = None
          \<and> insert_student_document (insert_behaviour env) db registrationNumber documentType
               (''/uploads/'' @ object_key env registrationNumber file documentType)
               (file_name file) (file_size file) (new_date env) = Inr (row # rows, db1)
          \<longrightarrow> handleFileUpload env db stores registrationNumber file documentType
               = (Inr \<lparr>data_id = doc_id row, data_registration_number = registrationNumber,
                       data_document_type = documentType,
                       data_file_url = ''/uploads/'' @ object_key env registrationNumber file documentType,
                       data_file_name = file_name file, data_file_size = file_size file,
                       data_uploaded_at = doc_uploaded_at row,
                       data_storage_method = ''local''\<rparr>,
                  db1,
                  stores\<lparr>local_files := (local_files stores)
                    (object_key env registrationNumber file documentType \<mapsto> file_bytes file)\<rparr>))
     \<and> (local_write_error env = Some m
          \<or> local_write_error env = None \<and> array_buffer_error env = Some m
          \<longrightarrow> handleFileUpload env db stores registrationNumber file documentType
               = (Inl (''Local storage failed: '' @ m), db, stores))"
proof -
  note fb = store_file_falls_back [OF assms]
  have ok: "handleFileUpload env db stores registrationNumber file documentType
               = (Inr \<lparr>data_id = doc_id row, data_registration_number = registrationNumber,
                       data_document_type = documentType,
                       data_file_url = ''/uploads/'' @ object_key env registrationNumber file documentType,
                       data_file_name = file_name file, data_file_size = file_size file,
                       data_uploaded_at = doc_uploaded_at row,
                       data_storage_method = ''local''\<rparr>,
                  db1,
                  stores\<lparr>local_files := (local_files stores)
                    (object_key env registrationNumber file documentType \<mapsto> file_bytes file)\<rparr>)"
    if "local_write_error env = None" and "array_buffer_error env = None"
      and "insert_student_document (insert_behaviour env) db registrationNumber documentType
               (''/uploads/'' @ object_key env registrationNumber file documentType)
               (file_name file) (file_size file) (new_date env) = Inr (row # rows, db1)"
    using that by (simp add: handleFileUpload_def Let_def fb saveFileLocally_def)
  have bad: "handleFileUpload env db stores registrationNumber file documentType
               = (Inl (''Local storage failed: '' @ m), db, stores)"
    if "local_write_error env = Some m
        \<or> local_write_error env = None \<and> array_buffer_error env = Some m"
    using that by (auto simp: handleFileUpload_def Let_def fb saveFileLocally_def)
  from ok bad show ?thesis by blast
qed

theorem upload_falls_back_to_local_witness:
  "handleFileUpload (demo_env\<lparr>upload_error := Some ''fetch failed''\<rparr>) demo_db empty_stores
       ''CS/001/2021'' demo_file ''exam-card''
     = (Inr \<lparr>data_id = 1, data_registration_number = ''CS/001/2021'',
             data_document_type = ''exam-card'',
             data_file_url = ''/uploads/exam-card/CS/001/2021_1718000000000.pdf'',
             data_file_name = ''card.pdf'', data_file_size = 2048,
             data_uploaded_at = 1718000000042, data_storage_method = ''local''\<rparr>,
        demo_db\<lparr>student_documents :=
          [\<lparr>doc_id = 1, doc_registration_number = ''CS/001/2021'', doc_document_type = ''exam-card'',
            doc_file_url = ''/uploads/exam-card/CS/001/2021_1718000000000.pdf'',
            doc_file_name = ''card.pdf'', doc_file_size = 2048,
            doc_uploaded_at = 1718000000042\<rparr>]\<rparr>,
        empty_stores\<lparr>local_files :=
          [''exam-card/CS/001/2021_1718000000000.pdf'' \<mapsto> [37, 80, 68, 70]]\<rparr>)
   \<and> handleFileUpload
       (demo_env\<lparr>upload_error := Some ''fetch failed'', local_write_error := Some ''EROFS''\<rparr>)
       demo_db empty_stores ''CS/001/2021'' demo_file ''exam-card''
     = (Inl ''Local storage failed: EROFS'', demo_db, empty_stores)"
proof -
  let ?env = "demo_env\<lparr>upload_error := Some ''fetch failed''\<rparr>"
  let ?bad = "demo_env\<lparr>upload_error := Some ''fetch failed'', local_write_error := Some ''EROFS''\<rparr>"
  let ?row = "\<lparr>doc_id = 1, doc_registration_number = ''CS/001/2021'', doc_document_type = ''exam-card'',
            doc_file_url = ''/uploads/exam-card/CS/001/2021_1718000000000.pdf'',
            doc_file_name = ''card.pdf'', doc_file_size = 2048,
            doc_uploaded_at = 1718000000042\<rparr>"
  have key: "object_key ?env ''CS/001/2021'' demo_file ''exam-card''
      = ''exam-card/CS/001/2021_1718000000000.pdf''"
    "object_key ?bad ''CS/001/2021'' demo_file ''exam-card''
      = ''exam-card/CS/001/2021_1718000000000.pdf''"
    by (simp_all add: object_key_def demo_env_def demo_file_def decimal_demo file_extension_def)
  have h1: "\<not> isSupabaseConfigured ?env
      \<or> supabase_upload ?env empty_stores demo_file (object_key ?env ''CS/001/2021'' demo_file ''exam-card'')
          = Inl ''Upload failed: fetch failed''"
    by (simp add: supabase_upload_def demo_env_def empty_stores_def)
  have h2: "\<not> isSupabaseConfigured ?bad
      \<or> supabase_upload ?bad empty_stores demo_file (object_key ?bad ''CS/001/2021'' demo_file ''exam-card'')
          = Inl ''Upload failed: fetch failed''"
    by (simp add: supabase_upload_def demo_env_def empty_stores_def)
  have ins: "local_write_error ?env = None \<and> array_buffer_error ?env = None
     \<and> insert_student_document (insert_behaviour ?env) demo_db ''CS/001/2021'' ''exam-card''
          (''/uploads/'' @ object_key ?env ''CS/001/2021'' demo_file ''exam-card'')
          (file_name demo_file) (file_size demo_file) (new_date ?env)
        = Inr (?row # [], demo_db\<lparr>student_documents := [?row]\<rparr>)"
    by (simp only: key)
      (simp add: insert_student_document_def demo_env_def demo_file_def demo_db_def
        fresh_id_def Let_def)
  have bad: "local_write_error ?bad = Some ''EROFS''
      \<or> local_write_error ?bad = None \<and> array_buffer_error ?bad = Some ''EROFS''"
    by (simp add: demo_env_def)
  from upload_falls_back_to_local [OF h1, of demo_db ?row "[]" "demo_db\<lparr>student_documents := [?row]\<rparr>" "''x''"]
    upload_falls_back_to_local [OF h2, of demo_db ?row "[]" demo_db "''EROFS''"] ins bad
  show ?thesis
    by (simp only: key) (simp add: demo_file_def empty_stores_def)
qed

lemma insert_student_document_row:
  assumes "insert_student_document mode db reg doctype url name fsize uploaded = Inr (row # rows, db1)"
  shows "rows = [] \<and> db1 = db\<lparr>student_documents := student_documents db @ [row]\<rparr>
       \<and> row = \<lparr>doc_id = fresh_id (map doc_id (student_documents db)),
                 doc_registration_number = reg, doc_document_type = doctype,
                 doc_file_url = url, doc_file_name = name, doc_file_size = fsize,
                 doc_uploaded_at = uploaded\<rparr>"
  using assms
  by (cases mode) (auto simp: insert_student_document_def Let_def split: if_splits)

lemma handleFileUpload_success:
  assumes "handleFileUpload env db stores registrationNumber file documentType = (Inr result, db', stores')"
  shows "\<exists>fileUrl storageMethod.
           store_file env stores file (object_key env registrationNumber file documentType)
             = Inr (fileUrl, storageMethod, stores')
         \<and> db' = db\<lparr>student_documents := student_documents db @
              [\<lparr>doc_id = fresh_id (map doc_id (student_documents db)),
                doc_registration_number = registrationNumber, doc_document_type = documentType,
                doc_file_url = fileUrl, doc_file_name = file_name file,
                doc_file_size = file_size file, doc_uploaded_at = new_date env\<rparr>]\<rparr>
         \<and> result = \<lparr>data_id = fresh_id (map doc_id (student_documents db)),
                data_registration_number = registrationNumber, data_document_type = documentType,
                data_file_url = fileUrl, data_file_name = file_name file,
                data_file_size = file_size file, data_uploaded_at = new_date env,
                data_storage_method = storageMethod\<rparr>"
proof (cases "store_file env stores file (object_key env registrationNumber file documentType)")
  case (Inl e)
  with assms show ?thesis by (simp add: handleFileUpload_def Let_def)
next
  case (Inr p)
  obtain fileUrl storageMethod stores1 where p: "p = (fileUrl, storageMethod, stores1)"
    by (cases p)
  show ?thesis
  proof (cases "insert_student_document (insert_behaviour env) db registrationNumber documentType
                   fileUrl (file_name file) (file_size file) (new_date env)")
    case (Inl e)
    with assms Inr p show ?thesis by (simp add: handleFileUpload_def Let_def)
  next
    case ins: (Inr q)
    obtain returned db1 where q: "q = (returned, db1)" by (cases q)
    show ?thesis
    proof (cases returned)
      case Nil
      with assms Inr p ins q show ?thesis by (simp add: handleFileUpload_def Let_def)
    next
      case (Cons row rows)
      from insert_student_document_row [OF ins [unfolded q Cons]]
      have row: "db1 = db\<lparr>student_documents := student_documents db @ [row]\<rparr>"
        "row = \<lparr>doc_id = fresh_id (map doc_id (student_documents db)),
                 doc_registration_number = registrationNumber, doc_document_type = documentType,
                 doc_file_url = fileUrl, doc_file_name = file_name file,
                 doc_file_size = file_size file, doc_uploaded_at = new_date env\<rparr>"
        by simp_all
      from assms Inr p ins q Cons
      have "result = \<lparr>data_id = doc_id row, data_registration_number = registrationNumber,
                      data_document_type = documentType, data_file_url = fileUrl,
                      data_file_name = file_name file, data_file_size = file_size file,
                      data_uploaded_at = doc_uploaded_at row,
                      data_storage_method = storageMethod\<rparr>"
        and "db' = db1" and "stores' = stores1"
        by (simp_all add: handleFileUpload_def Let_def)
      with row Inr p show ?thesis by simp
    qed
  qed
qed

lemma get_documents_mset:
  "mset (get_documents db reg)
     = mset (filter (\<lambda>d. doc_registration_number d = reg) (student_documents db))"
  by (simp add: get_documents_def)

lemma get_documents_sorted:
  "sorted (rev (map doc_uploaded_at (get_documents db reg)))"
  by (simp add: get_documents_def rev_map [symmetric])

lemma get_documents_first:
  assumes "get_documents db reg = first # others"
    and "d \<in> set (student_documents db)" and "doc_registration_number d = reg"
  shows "doc_uploaded_at d \<le> doc_uploaded_at first"
proof -
  from assms(2,3) have "d \<in># mset (filter (\<lambda>d. doc_registration_number d = reg) (student_documents db))"
    by simp
  then have "d \<in> set (get_documents db reg)"
    by (simp only: get_documents_mset [symmetric] set_mset_mset)
  with assms(1) have mem: "d = first \<or> d \<in> set others" by auto
  from get_documents_sorted [of db reg] assms(1)
  have "sorted (rev (map doc_uploaded_at others) @ [doc_uploaded_at first])" by simp
  then have "\<forall>x \<in> set others. doc_uploaded_at x \<le> doc_uploaded_at first"
    by (auto simp: sorted_append)
  with mem show ?thesis by auto
qed


text \<open>
  Claim C7. A call of \<^verbatim>\<open>handleFileUpload\<close> that succeeds leaves \<^verbatim>\<open>student_documents\<close> as it
  was, followed by one new row: the row has an id that no earlier row has, the registration
  number and document type of the call and the upload time, and the listing for the
  registration number contains it. The listing of a registration number holds exactly the
  rows of that registration number, in descending order of \<^verbatim>\<open>uploaded_at\<close>: no row of the
  registration number is newer than the first element.
\<close>

theorem upload_appends_document:
  assumes "handleFileUpload env db stores registrationNumber file documentType
             = (Inr result, db', stores')"
  shows "(\<exists>row. student_documents db' = student_documents db @ [row]
            \<and> doc_id row \<notin> set (map doc_id (student_documents db))
            \<and> doc_registration_number row = registrationNumber
            \<and> doc_document_type row = documentType
            \<and> doc_uploaded_at row = new_date env
            \<and> row \<in> set (get_documents db' registrationNumber))
     \<and> mset (get_documents listed reg)
         = mset (filter (\<lambda>d. doc_registration_number d = reg) (student_documents listed))
     \<and> sorted (rev (map doc_uploaded_at (get_documents listed reg)))
     \<and> (case get_documents listed reg of
          [] \<Rightarrow> filter (\<lambda>d. doc_registration_number d = reg) (student_documents listed) = []
        | first # others \<Rightarrow>
            (\<forall>d \<in> set (student_documents listed).
               doc_registration_number d = reg \<longrightarrow> doc_uploaded_at d \<le> doc_uploaded_at first))"
proof -
  from handleFileUpload_success [OF assms]
  obtain fileUrl where db': "db' = db\<lparr>student_documents := student_documents db @
              [\<lparr>doc_id = fresh_id (map doc_id (student_documents db)),
                doc_registration_number = registrationNumber, doc_document_type = documentType,
                doc_file_url = fileUrl, doc_file_name = file_name file,
                doc_file_size = file_size file, doc_uploaded_at = new_date env\<rparr>]\<rparr>"
    by blast
  let ?row = "\<lparr>doc_id = fresh_id (map doc_id (student_documents db)),
                doc_registration_number = registrationNumber, doc_document_type = documentType,
                doc_file_url = fileUrl, doc_file_name = file_name file,
                doc_file_size = file_size file, doc_uploaded_at = new_date env\<rparr>"
  have "?row \<in># mset (filter (\<lambda>d. doc_registration_number d = registrationNumber)
                       (student_documents db'))"
    by (simp add: db')
  then have listed: "?row \<in> set (get_documents db' registrationNumber)"
    by (simp only: get_documents_mset [symmetric] set_mset_mset)
  have new: "doc_id ?row \<notin> set (map doc_id (student_documents db))"
    using fresh_id_new [of "map doc_id (student_documents db)"] by simp
  have appended: "\<exists>row. student_documents db' = student_documents db @ [row]
            \<and> doc_id row \<notin> set (map doc_id (student_documents db))
            \<and> doc_registration_number row = registrationNumber
            \<and> doc_document_type row = documentType
            \<and> doc_uploaded_at row = new_date env
            \<and> row \<in> set (get_documents db' registrationNumber)"
    using listed new by (intro exI [of _ ?row]) (simp add: db')
  have first: "case get_documents listed reg of
          [] \<Rightarrow> filter (\<lambda>d. doc_registration_number d = reg) (student_documents listed) = []
        | first # others \<Rightarrow>
            (\<forall>d \<in> set (student_documents listed).
               doc_registration_number d = reg \<longrightarrow> doc_uploaded_at d \<le> doc_uploaded_at first)"
  proof (cases "get_documents listed reg")
    case Nil
    with get_documents_mset [of listed reg] show ?thesis by simp
  next
    case (Cons first others)
    with get_documents_first [OF Cons] show ?thesis by simp
  qed
  from appended get_documents_mset [of listed reg] get_documents_sorted [of listed reg] first
  show ?thesis by (intro conjI)
qed

lemma key_demo:
  "object_key demo_env ''CS/001/2021'' demo_file ''exam-card''
     = ''exam-card/CS/001/2021_1718000000000.pdf''"
  "object_key demo_env ''CS/009/2021'' demo_file ''exam-card''
     = ''exam-card/CS/009/2021_1718000000000.pdf''"
  by (simp_all add: object_key_def demo_env_def demo_file_def decimal_demo file_extension_def)

theorem upload_appends_document_witness:
  "handleFileUpload demo_env demo_archive empty_stores ''CS/001/2021'' demo_file ''exam-card''
     = (Inr \<lparr>data_id = 3, data_registration_number = ''CS/001/2021'',
             data_document_type = ''exam-card'',
             data_file_url = ''https://portal.supabase.co/storage/v1/object/public/student-documents/exam-card/CS/001/2021_1718000000000.pdf'',
             data_file_name = ''card.pdf'', data_file_size = 2048,
             data_uploaded_at = 1718000000042, data_storage_method = ''supabase''\<rparr>,
        demo_archive\<lparr>student_documents :=
          [demo_document 1 ''exam-card'' 1716000000000, demo_document 2 ''results'' 1717000000000,
           \<lparr>doc_id = 3, doc_registration_number = ''CS/001/2021'', doc_document_type = ''exam-card'',
            doc_file_url = ''https://portal.supabase.co/storage/v1/object/public/student-documents/exam-card/CS/001/2021_1718000000000.pdf'',
            doc_file_name = ''card.pdf'', doc_file_size = 2048,
            doc_uploaded_at = 1718000000042\<rparr>]\<rparr>,
        empty_stores\<lparr>remote_objects :=
          [''exam-card/CS/001/2021_1718000000000.pdf'' \<mapsto> [37, 80, 68, 70]]\<rparr>)
   \<and> get_documents
        (demo_archive\<lparr>student_documents :=
          [demo_document 1 ''exam-card'' 1716000000000, demo_document 2 ''results'' 1717000000000,
           \<lparr>doc_id = 3, doc_registration_number = ''CS/001/2021'', doc_document_type = ''exam-card'',
            doc_file_url = ''https://portal.supabase.co/storage/v1/object/public/student-documents/exam-card/CS/001/2021_1718000000000.pdf'',
            doc_file_name = ''card.pdf'', doc_file_size = 2048,
            doc_uploaded_at = 1718000000042\<rparr>]\<rparr>) ''CS/001/2021''
     = [\<lparr>doc_id = 3, doc_registration_number = ''CS/001/2021'', doc_document_type = ''exam-card'',
         doc_file_url = ''https://portal.supabase.co/storage/v1/object/public/student-documents/exam-card/CS/001/2021_1718000000000.pdf'',
         doc_file_name = ''card.pdf'', doc_file_size = 2048,
         doc_uploaded_at = 1718000000042\<rparr>,
        demo_document 2 ''results'' 1717000000000, demo_document 1 ''exam-card'' 1716000000000]"
proof -
  let ?new = "\<lparr>doc_id = 3, doc_registration_number = ''CS/001/2021'', doc_document_type = ''exam-card'',
            doc_file_url = ''https://portal.supabase.co/storage/v1/object/public/student-documents/exam-card/CS/001/2021_1718000000000.pdf'',
            doc_file_name = ''card.pdf'', doc_file_size = 2048,
            doc_uploaded_at = 1718000000042\<rparr>"
  let ?db' = "demo_archive\<lparr>student_documents :=
          [demo_document 1 ''exam-card'' 1716000000000, demo_document 2 ''results'' 1717000000000,
           ?new]\<rparr>"
  have h: "handleFileUpload demo_env demo_archive empty_stores ''CS/001/2021'' demo_file ''exam-card''
     = (Inr \<lparr>data_id = 3, data_registration_number = ''CS/001/2021'',
             data_document_type = ''exam-card'',
             data_file_url = ''https://portal.supabase.co/storage/v1/object/public/student-documents/exam-card/CS/001/2021_1718000000000.pdf'',
             data_file_name = ''card.pdf'', data_file_size = 2048,
             data_uploaded_at = 1718000000042, data_storage_method = ''supabase''\<rparr>,
        ?db',
        empty_stores\<lparr>remote_objects :=
          [''exam-card/CS/001/2021_1718000000000.pdf'' \<mapsto> [37, 80, 68, 70]]\<rparr>)"
    by (simp add: handleFileUpload_def Let_def key_demo)
      (simp add: run_upload demo_env_def demo_file_def empty_stores_def demo_archive_def
        demo_db_def demo_document_def encodeURI_demo)
  have listing: "get_documents ?db' ''CS/001/2021''
     = [?new, demo_document 2 ''results'' 1717000000000, demo_document 1 ''exam-card'' 1716000000000]"
    by (simp add: get_documents_def demo_archive_def demo_db_def demo_document_def)
  from upload_appends_document [OF h, of ?db' "''CS/001/2021''"] h listing
  show ?thesis by simp
qed


lemma pow2_positive: "0 < pow2 k"
  by (simp add: pow2_def)

lemma pow2_mono: "k \<le> j \<Longrightarrow> pow2 k \<le> pow2 j"
  unfolding pow2_def by (rule power_int_increasing) simp_all

lemma pow2_strict_mono: "k < j \<Longrightarrow> pow2 k < pow2 j"
  unfolding pow2_def by (rule power_int_strict_increasing) simp_all

lemma binade_below:
  assumes "pow2 (k - int n) \<le> x"
  shows "pow2 (binade x k n) \<le> x"
  using assms
proof (induction n arbitrary: k)
  case 0
  then show ?case by simp
next
  case (Suc n)
  have "k - int (Suc n) = k - 1 - int n" by simp
  with Suc.prems have "pow2 (k - 1 - int n) \<le> x" by (simp only:)
  from Suc.IH [OF this] show ?case by simp
qed

lemma binade_eq:
  assumes "pow2 e \<le> x" and "x < pow2 (e + 1)" and "e \<le> k" and "k - int n \<le> e"
  shows "binade x k n = e"
  using assms(3,4)
proof (induction n arbitrary: k)
  case 0
  then show ?case by simp
next
  case (Suc n)
  show ?case
  proof (cases "pow2 k \<le> x")
    case True
    have "\<not> e < k"
    proof
      assume "e < k"
      then have "pow2 (e + 1) \<le> pow2 k" by (intro pow2_mono) simp
      with True assms(2) show False by simp
    qed
    with Suc.prems True show ?thesis by simp
  next
    case False
    with assms(1) have "k \<noteq> e" by auto
    with Suc.prems have "e \<le> k - 1" and "k - 1 - int n \<le> e" by simp_all
    from Suc.IH [OF this] False show ?thesis by simp
  qed
qed

lemma binade_range:
  "k - int n \<le> binade q k n \<and> (pow2 (binade q k n) \<le> q \<or> binade q k n = k - int n)"
proof (induction n arbitrary: k)
  case 0
  show ?case by simp
next
  case (Suc n)
  show ?case
  proof (cases "pow2 k \<le> q")
    case True
    then show ?thesis by simp
  next
    case False
    have eq: "k - 1 - int n = k - int (Suc n)" by simp
    from Suc.IH [of "k - 1"]
    have "k - int (Suc n) \<le> binade q (k - 1) n
        \<and> (pow2 (binade q (k - 1) n) \<le> q \<or> binade q (k - 1) n = k - int (Suc n))"
      by (simp only: eq)
    moreover from False have "binade q k (Suc n) = binade q (k - 1) n" by simp
    ultimately show ?thesis by (simp only:)
  qed
qed

lemma binade_subnormal:
  assumes "\<not> pow2 (- 1022) \<le> q"
  shows "binade q 1023 2045 = - 1022"
proof -
  from binade_range [of 1023 2045 q]
  have range: "- 1022 \<le> binade q 1023 2045"
    and found: "pow2 (binade q 1023 2045) \<le> q \<or> binade q 1023 2045 = - 1022"
    by simp_all
  have "\<not> pow2 (binade q 1023 2045) \<le> q"
  proof
    assume "pow2 (binade q 1023 2045) \<le> q"
    with pow2_mono [OF range] have "pow2 (- 1022) \<le> q" by simp
    with assms show False by simp
  qed
  with found show ?thesis by simp
qed

lemma round_half_even_lower:
  assumes "1 \<le> x"
  shows "1 \<le> round_half_even x"
proof -
  from assms have "1 \<le> \<lfloor>x\<rfloor>" by (simp add: le_floor_iff)
  then show ?thesis by (auto simp: round_half_even_def Let_def)
qed

lemma round_half_even_small:
  assumes "0 \<le> x" and "x < 1 / 2"
  shows "round_half_even x = 0"
proof -
  from assms have "\<lfloor>x\<rfloor> = 0" by (intro floor_unique) simp_all
  with assms show ?thesis by (simp add: round_half_even_def Let_def)
qed

lemma round_half_even_numeral: "round_half_even (numeral n) = numeral n"
  by (simp add: round_half_even_def Let_def)

text \<open>A balance of at least \<open>2\<^sup>-\<^sup>1\<^sup>0\<^sup>7\<^sup>4\<close>, the least positive double, is read as a positive number.\<close>

lemma parseFloat_positive:
  assumes "1 / 2 ^ 1074 \<le> q"
  shows "greater_than_zero (or_zero (parseFloat q))"
proof -
  have sub: "pow2 (- 1022) / 2 ^ 52 = 1 / 2 ^ 1074"
    by (simp add: pow2_def power_int_def field_simps flip: power_add)
  have "(0 :: rat) < 1 / 2 ^ 1074" by simp
  then have pos: "0 < q" using assms by (rule less_le_trans)
  define e where "e = binade q 1023 2045"
  define ulp where "ulp = pow2 e / 2 ^ 52"
  define v where "v = of_int (round_half_even (q / ulp)) * ulp"
  have ulp_pos: "0 < ulp" by (simp add: ulp_def pow2_positive)
  have "ulp \<le> q"
  proof (cases "pow2 (- 1022) \<le> q")
    case True
    have "pow2 (1023 - int 2045) \<le> q" using True by simp
    from binade_below [OF this] have "pow2 e \<le> q" by (simp add: e_def)
    moreover have "pow2 e / 2 ^ 52 \<le> pow2 e"
      using pow2_positive [of e] by (simp add: field_simps)
    ultimately show ?thesis by (simp add: ulp_def)
  next
    case False
    from binade_subnormal [OF False] have "e = - 1022" by (simp add: e_def)
    with sub assms show ?thesis by (simp add: ulp_def)
  qed
  with ulp_pos have "1 \<le> q / ulp" by (simp add: field_simps)
  from round_half_even_lower [OF this] have "(1 :: rat) \<le> of_int (round_half_even (q / ulp))"
    by simp
  with ulp_pos have "0 < v" by (simp add: v_def)
  have "parseFloat q = (if pow2 1024 \<le> v then PlusInfinity else Finite v)"
    using pos by (simp add: parseFloat_def Let_def e_def ulp_def v_def)
  with \<open>0 < v\<close> show ?thesis by (simp add: or_zero_def)
qed

lemma parseFloat_finite:
  assumes "0 \<le> q" and "binade q 1023 2045 = e"
    and "round_half_even (q / (pow2 e / 2 ^ 52)) = m"
    and "of_int m * (pow2 e / 2 ^ 52) = v" and "v < pow2 1024"
  shows "parseFloat q = Finite v"
proof -
  from assms(1) have "\<bar>q\<bar> = q" and "\<not> q < 0" by simp_all
  with assms(2-5) show ?thesis
    by (simp add: parseFloat_def Let_def)
qed

lemma parseFloat_1500: "parseFloat 1500 = Finite 1500"
proof (rule parseFloat_finite)
  show "(0 :: rat) \<le> 1500" by simp
  show "binade 1500 1023 2045 = 10"
    by (rule binade_eq) (simp_all add: pow2_def power_int_def)
  show "round_half_even (1500 / (pow2 10 / 2 ^ 52)) = 6597069766656000"
    by (simp add: pow2_def power_int_def round_half_even_numeral)
  show "of_int 6597069766656000 * (pow2 10 / 2 ^ 52) = (1500 :: rat)"
    by (simp add: pow2_def power_int_def)
  show "(1500 :: rat) < pow2 1024"
    by (simp add: pow2_def power_int_def)
qed

lemma parseFloat_tiny: "parseFloat (1 / 10 ^ 400) = Finite 0"
proof (rule parseFloat_finite)
  have small: "(1 :: rat) / 10 ^ 400 < pow2 (- 1022)"
    by (simp add: pow2_def power_int_def field_simps)
  show "(0 :: rat) \<le> 1 / 10 ^ 400" by simp
  from small have "\<not> pow2 (- 1022) \<le> (1 :: rat) / 10 ^ 400" by simp
  then show "binade (1 / 10 ^ 400) 1023 2045 = - 1022"
    by (rule binade_subnormal)
  have "(0 :: rat) \<le> 1 / 10 ^ 400 / (pow2 (- 1022) / 2 ^ 52)"
    and "(1 :: rat) / 10 ^ 400 / (pow2 (- 1022) / 2 ^ 52) < 1 / 2"
    by (simp_all add: pow2_def power_int_def field_simps)
  then show "round_half_even (1 / 10 ^ 400 / (pow2 (- 1022) / 2 ^ 52)) = 0"
    by (rule round_half_even_small)
  show "of_int 0 * (pow2 (- 1022) / 2 ^ 52) = (0 :: rat)" by simp
  show "(0 :: rat) < pow2 1024" by (rule pow2_positive)
qed


lemma parseFloat_zero: "parseFloat 0 = Finite 0"
proof (rule parseFloat_finite)
  from pow2_positive [of "- 1022"] have "\<not> pow2 (- 1022) \<le> 0" by simp
  then show "binade 0 1023 2045 = - 1022" by (rule binade_subnormal)
  show "round_half_even (0 / (pow2 (- 1022) / 2 ^ 52)) = 0"
    by (simp add: round_half_even_def)
  show "(0 :: rat) < pow2 1024" by (rule pow2_positive)
qed simp_all

lemma exam_card_released:
  assumes "select_student_by_id db studentId = student # others"
    and "returned (filter (\<lambda>f. fee_student_id f = studentId) (fees db)) = feeRow # otherFees"
    and "parseFloat (fee_balance feeRow) = Finite 0"
    and "rev (sort_key doc_uploaded_at
           (filter (\<lambda>d. doc_registration_number d = registration_number student
                         \<and> doc_document_type d = ''exam-card'') (student_documents db)))
         = doc # docs"
  shows "get_exam_card returned legacy db studentId = ExamCardDocument doc"
  using assms by (simp add: get_exam_card_def or_zero_def Let_def)

text \<open>
  Claim C8 as stated fails in two ways. The student of the small database has an exam card
  among the documents. With two fee records, of balance 0 and of balance 500, returned in
  this order, the gate looks at the first alone and the exam card is given out. With one
  fee record of balance \<open>10\<^sup>-\<^sup>4\<^sup>0\<^sup>0\<close>, which is above zero, \<^verbatim>\<open>parseFloat\<close> reads 0 and the exam
  card is given out.
\<close>

theorem positive_balance_not_gated:
  "get_exam_card (\<lambda>rows. rows) (ExamCardError 404 ''Exam card not found'')
       (demo_archive\<lparr>fees := [demo_fee 0, demo_fee 500]\<rparr>) 1
     = ExamCardDocument (demo_document 1 ''exam-card'' 1716000000000)
   \<and> get_exam_card (\<lambda>rows. rows) (ExamCardError 404 ''Exam card not found'')
       (demo_archive\<lparr>fees := [demo_fee (1 / 10 ^ 400)]\<rparr>) 1
     = ExamCardDocument (demo_document 1 ''exam-card'' 1716000000000)"
proof -
  have zero: "parseFloat (fee_balance (demo_fee 0)) = Finite 0"
    by (simp only: demo_fee_def fee_row.select_convs parseFloat_zero)
  have tiny: "parseFloat (fee_balance (demo_fee (1 / 10 ^ 400))) = Finite 0"
    by (simp only: demo_fee_def fee_row.select_convs parseFloat_tiny)
  have student: "select_student_by_id (demo_archive\<lparr>fees := rows\<rparr>) 1 = demo_student # []" for rows
    by (simp add: demo select_student_by_id_def)
  have two: "(\<lambda>rows. rows) (filter (\<lambda>f. fee_student_id f = 1)
        (fees (demo_archive\<lparr>fees := [demo_fee 0, demo_fee 500]\<rparr>))) = demo_fee 0 # [demo_fee 500]"
    by (simp add: demo_fee_def)
  have one: "(\<lambda>rows. rows) (filter (\<lambda>f. fee_student_id f = 1)
        (fees (demo_archive\<lparr>fees := [demo_fee (1 / 10 ^ 400)]\<rparr>))) = demo_fee (1 / 10 ^ 400) # []"
    by (simp add: demo_fee_def)
  have docs: "rev (sort_key doc_uploaded_at
           (filter (\<lambda>d. doc_registration_number d = registration_number demo_student
                         \<and> doc_document_type d = ''exam-card'')
              (student_documents (demo_archive\<lparr>fees := rows\<rparr>))))
         = demo_document 1 ''exam-card'' 1716000000000 # []" for rows
    by (simp add: demo)
  from exam_card_released [where returned = "\<lambda>rows. rows", OF student two zero docs]
    exam_card_released [where returned = "\<lambda>rows. rows", OF student one tiny docs]
  show ?thesis by (rule conjI)
qed

text \<open>
  Claim C8, amended. For an existing student, let \<open>feeRow\<close> be the fee record that the query
  returns first. If \<^verbatim>\<open>parseFloat\<close> reads its balance as a number above zero, the retrieval
  of the exam card answers 403 with that number, whatever \<^verbatim>\<open>student_documents\<close> holds: no
  document is looked up. Every balance of at least \<open>2\<^sup>-\<^sup>1\<^sup>0\<^sup>7\<^sup>4\<close> is read as a number above
  zero.
\<close>

theorem exam_card_fee_gate:
  assumes "select_student_by_id db studentId = student # others"
    and "returned (filter (\<lambda>f. fee_student_id f = studentId) (fees db)) = feeRow # otherFees"
  shows "(greater_than_zero (parseFloat (fee_balance feeRow)) \<longrightarrow>
            get_exam_card returned legacy (db\<lparr>student_documents := documents\<rparr>) studentId
              = FeePaymentRequired (parseFloat (fee_balance feeRow)))
     \<and> (1 / 2 ^ 1074 \<le> fee_balance feeRow \<longrightarrow>
            greater_than_zero (parseFloat (fee_balance feeRow)))"
proof -
  have gate: "get_exam_card returned legacy (db\<lparr>student_documents := documents\<rparr>) studentId
              = FeePaymentRequired (parseFloat (fee_balance feeRow))"
    if "greater_than_zero (parseFloat (fee_balance feeRow))"
  proof -
    from that have "parseFloat (fee_balance feeRow) \<noteq> Finite 0" by auto
    then have "or_zero (parseFloat (fee_balance feeRow)) = parseFloat (fee_balance feeRow)"
      by (simp add: or_zero_def)
    with assms that show ?thesis
      by (simp add: get_exam_card_def select_student_by_id_def Let_def)
  qed
  have above: "greater_than_zero (parseFloat (fee_balance feeRow))"
    if "1 / 2 ^ 1074 \<le> fee_balance feeRow"
  proof -
    from parseFloat_positive [OF that]
    have "greater_than_zero (or_zero (parseFloat (fee_balance feeRow)))" .
    then show ?thesis by (simp add: or_zero_def split: if_splits)
  qed
  from gate above show ?thesis by blast
qed

theorem exam_card_fee_gate_witness:
  "get_exam_card (\<lambda>rows. rows) (ExamCardError 404 ''Exam card not found'') demo_archive 1
     = FeePaymentRequired (Finite 1500)
   \<and> get_exam_card (\<lambda>rows. rows) (ExamCardError 404 ''Exam card not found'')
        (demo_archive\<lparr>fees := [demo_fee (1 / 100), demo_fee 0]\<rparr>) 1
     = FeePaymentRequired (parseFloat (1 / 100))"
proof -
  have h: "select_student_by_id demo_archive 1 = demo_student # []"
    "(\<lambda>rows. rows) (filter (\<lambda>f. fee_student_id f = 1) (fees demo_archive))
       = \<lparr>fee_student_id = 1, fee_balance = 1500\<rparr> # []"
    by (simp_all add: demo select_student_by_id_def)
  have k: "select_student_by_id (demo_archive\<lparr>fees := [demo_fee (1 / 100), demo_fee 0]\<rparr>) 1
       = demo_student # []"
    "(\<lambda>rows. rows) (filter (\<lambda>f. fee_student_id f = 1)
         (fees (demo_archive\<lparr>fees := [demo_fee (1 / 100), demo_fee 0]\<rparr>)))
       = demo_fee (1 / 100) # [demo_fee 0]"
    by (simp_all add: demo demo_fee_def select_student_by_id_def)
  have cent: "(1 :: rat) / 2 ^ 1074 \<le> fee_balance (demo_fee (1 / 100))"
    by (simp add: demo_fee_def)
  have documents: "demo_archive\<lparr>student_documents := student_documents demo_archive\<rparr> = demo_archive"
    "demo_archive\<lparr>fees := [demo_fee (1 / 100), demo_fee 0],
       student_documents := student_documents demo_archive\<rparr>
     = demo_archive\<lparr>fees := [demo_fee (1 / 100), demo_fee 0]\<rparr>"
    by simp_all
  have balance: "fee_balance (demo_fee (1 / 100)) = 1 / 100"
    by (simp only: demo_fee_def fee_row.select_convs)
  from exam_card_fee_gate [where returned = "\<lambda>rows. rows", OF h,
      of "ExamCardError 404 ''Exam card not found''" "student_documents demo_archive"]
  have first: "get_exam_card (\<lambda>rows. rows) (ExamCardError 404 ''Exam card not found'') demo_archive 1
     = FeePaymentRequired (Finite 1500)"
    by (simp add: documents parseFloat_1500)
  from exam_card_fee_gate [where returned = "\<lambda>rows. rows", OF k,
      of "ExamCardError 404 ''Exam card not found''" "student_documents demo_archive"] cent
  have "get_exam_card (\<lambda>rows. rows) (ExamCardError 404 ''Exam card not found'')
        (demo_archive\<lparr>fees := [demo_fee (1 / 100), demo_fee 0]\<rparr>) 1
     = FeePaymentRequired (parseFloat (fee_balance (demo_fee (1 / 100))))"
    by (simp only: documents simp_thms) 
  then have second: "get_exam_card (\<lambda>rows. rows) (ExamCardError 404 ''Exam card not found'')
        (demo_archive\<lparr>fees := [demo_fee (1 / 100), demo_fee 0]\<rparr>) 1
     = FeePaymentRequired (parseFloat (1 / 100))"
    by (simp only: balance)
  from first second show ?thesis by (rule conjI)
qed

lemmas routes = document_routes_def exam_card_route_def fees_structure_route_def
  fees_statement_route_def fees_receipt_route_def results_route_def timetable_route_def

lemma trim_long_registration: "trim long_registration = long_registration"
proof -
  have "dropWhile is_space (replicate n CHR ''7'') = replicate n CHR ''7''" for n
    by (cases n) (simp_all add: is_space_def)
  then show ?thesis by (simp add: trim_def long_registration_def)
qed

text \<open>
  Claim C10 as stated fails at a registration number of 51 characters: no student is looked
  up, the blob is stored, and the INSERT raises on the \<^verbatim>\<open>VARCHAR(50)\<close> column; the answer
  is 500.
\<close>

theorem long_registration_number_rejected:
  "post_document exam_card_route demo_env (demo_db\<lparr>students := []\<rparr>) empty_stores
       (demo_form long_registration)
     = (UploadFailed ''Failed to upload exam card''
          ''value too long for type character varying(50)'',
        demo_db\<lparr>students := []\<rparr>,
        empty_stores\<lparr>remote_objects :=
          [''exam-card/'' @ long_registration @ ''_1718000000000.pdf'' \<mapsto> file_bytes demo_file]\<rparr>)"
proof -
  have len: "length long_registration = 51" "long_registration \<noteq> []"
    by (simp_all add: long_registration_def)
  have upload: "handleFileUpload demo_env (demo_db\<lparr>students := []\<rparr>) empty_stores
        long_registration demo_file ''exam-card''
      = (Inl ''value too long for type character varying(50)'', demo_db\<lparr>students := []\<rparr>,
         empty_stores\<lparr>remote_objects :=
           [''exam-card/'' @ long_registration @ ''_1718000000000.pdf'' \<mapsto> file_bytes demo_file]\<rparr>)"
    by (simp add: handleFileUpload_def Let_def long_key_demo)
      (simp add: run_upload demo_env_def empty_stores_def len)
  have size: "file_size demo_file = 2048" by (simp add: demo_file_def)
  show ?thesis
    by (simp add: post_document_def exam_card_route_def demo_form_def Let_def len
        trim_long_registration upload size)
qed

lemma document_type_fits:
  assumes "route \<in> set document_routes"
  shows "length (document_type route) \<le> 50"
  using assms by (auto simp: routes)

text \<open>
  Claim C10, amended. Take one of the six document routes and a form in which the
  registration number found is a non-empty string that, trimmed, fits the 50 characters of
  the column, and the file found is within the sizes the route accepts and has a name that
  fits 255 characters. When the blob is stored and the INSERT executes, the route answers
  201 with the data of the upload and appends a document row with the trimmed registration
  number and the document type of the route, whatever the table \<^verbatim>\<open>students\<close> holds.
\<close>

theorem upload_needs_no_student:
  assumes "route \<in> set document_routes"
    and "first_truthy (map (map_of formData) (registration_fields route)) = Some (Text reg)"
    and "reg \<noteq> []"
    and "first_truthy (map (map_of formData) (file_fields route)) = Some (Upload f)"
    and "file_size f \<le> 10485760"
    and "if small_file_refused route then 1024 \<le> file_size f else 0 < file_size f"
    and "length (trim reg) \<le> 50" and "length (file_name f) \<le> 255"
    and "insert_behaviour env = Executes"
    and "store_file env stores f (object_key env (trim reg) f (document_type route))
           = Inr (fileUrl, storageMethod, stores1)"
  shows "post_document route env (db\<lparr>students := anyStudents\<rparr>) stores formData
           = (Uploaded (uploaded_message route)
                \<lparr>data_id = fresh_id (map doc_id (student_documents db)),
                  data_registration_number = trim reg,
                  data_document_type = document_type route,
                  data_file_url = fileUrl, data_file_name = file_name f,
                  data_file_size = file_size f, data_uploaded_at = new_date env,
                  data_storage_method = storageMethod\<rparr>,
              db\<lparr>students := anyStudents,
                 student_documents := student_documents db @
                   [\<lparr>doc_id = fresh_id (map doc_id (student_documents db)),
                     doc_registration_number = trim reg,
                     doc_document_type = document_type route,
                     doc_file_url = fileUrl, doc_file_name = file_name f,
                     doc_file_size = file_size f, doc_uploaded_at = new_date env\<rparr>]\<rparr>,
              stores1)"
proof -
  note fits = document_type_fits [OF assms(1)]
  have upload: "handleFileUpload env (db\<lparr>students := anyStudents\<rparr>) stores (trim reg) f
        (document_type route)
      = (Inr \<lparr>data_id = fresh_id (map doc_id (student_documents db)),
                  data_registration_number = trim reg,
                  data_document_type = document_type route,
                  data_file_url = fileUrl, data_file_name = file_name f,
                  data_file_size = file_size f, data_uploaded_at = new_date env,
                  data_storage_method = storageMethod\<rparr>,
              db\<lparr>students := anyStudents,
                 student_documents := student_documents db @
                   [\<lparr>doc_id = fresh_id (map doc_id (student_documents db)),
                     doc_registration_number = trim reg,
                     doc_document_type = document_type route,
                     doc_file_url = fileUrl, doc_file_name = file_name f,
                     doc_file_size = file_size f, doc_uploaded_at = new_date env\<rparr>]\<rparr>,
              stores1)"
    using assms(5,7-10) fits
    by (simp add: handleFileUpload_def insert_student_document_def Let_def)
  have size: "\<not> (empty_file_refused route \<and> file_size f = 0)"
    "\<not> file_size f > 10 * 1024 * 1024"
    "\<not> (small_file_refused route \<and> file_size f < 1024)"
    using assms(1,5,6) by (auto simp: routes split: if_splits)
  show ?thesis
    using assms(3) size
    by (simp add: post_document_def Let_def assms(2,4) upload
        del: first_truthy.simps)
qed

theorem upload_needs_no_student_witness:
  "post_document fees_statement_route demo_env (demo_db\<lparr>students := []\<rparr>) empty_stores
       [(''regNumber'', Text (CHR 0xA0 # '' CS/009/2021 '')), (''registrationNumber'', Text []),
        (''document'', Upload demo_file)]
     = (Uploaded ''Fees statement uploaded successfully''
          \<lparr>data_id = 1, data_registration_number = ''CS/009/2021'',
            data_document_type = ''fees-statement'',
            data_file_url = ''https://portal.supabase.co/storage/v1/object/public/student-documents/fees-statement/CS/009/2021_1718000000000.pdf'',
            data_file_name = ''card.pdf'', data_file_size = 2048,
            data_uploaded_at = 1718000000042, data_storage_method = ''supabase''\<rparr>,
        demo_db\<lparr>students := [],
          student_documents :=
            [\<lparr>doc_id = 1, doc_registration_number = ''CS/009/2021'',
              doc_document_type = ''fees-statement'',
              doc_file_url = ''https://portal.supabase.co/storage/v1/object/public/student-documents/fees-statement/CS/009/2021_1718000000000.pdf'',
              doc_file_name = ''card.pdf'', doc_file_size = 2048,
              doc_uploaded_at = 1718000000042\<rparr>]\<rparr>,
        empty_stores\<lparr>remote_objects :=
          [''fees-statement/CS/009/2021_1718000000000.pdf'' \<mapsto> [37, 80, 68, 70]]\<rparr>)"
proof -
  let ?form = "[(''regNumber'', Text (CHR 0xA0 # '' CS/009/2021 '')),
                (''registrationNumber'', Text []), (''document'', Upload demo_file)]"
  have key: "object_key demo_env ''CS/009/2021'' demo_file ''fees-statement''
      = ''fees-statement/CS/009/2021_1718000000000.pdf''"
    by (simp add: object_key_def demo_env_def demo_file_def decimal_demo file_extension_def)
  have store: "store_file demo_env empty_stores demo_file
        (object_key demo_env (trim (CHR 0xA0 # '' CS/009/2021 '')) demo_file
           (document_type fees_statement_route))
      = Inr (''https://portal.supabase.co/storage/v1/object/public/student-documents/fees-statement/CS/009/2021_1718000000000.pdf'',
             ''supabase'',
             empty_stores\<lparr>remote_objects :=
               [''fees-statement/CS/009/2021_1718000000000.pdf'' \<mapsto> [37, 80, 68, 70]]\<rparr>)"
    by (simp add: trim_demo fees_statement_route_def key)
      (simp add: store_file_def supabase_upload_def isSupabaseConfigured_def is_set_def
        demo_env_def demo_file_def empty_stores_def encodeURI_demo)
  have h: "fees_statement_route \<in> set document_routes"
    "first_truthy (map (map_of ?form) (registration_fields fees_statement_route))
       = Some (Text (CHR 0xA0 # '' CS/009/2021 ''))"
    "CHR 0xA0 # '' CS/009/2021 '' \<noteq> []"
    "first_truthy (map (map_of ?form) (file_fields fees_statement_route)) = Some (Upload demo_file)"
    "file_size demo_file \<le> 10485760"
    "if small_file_refused fees_statement_route then 1024 \<le> file_size demo_file
     else 0 < file_size demo_file"
    "length (trim (CHR 0xA0 # '' CS/009/2021 '')) \<le> 50" "length (file_name demo_file) \<le> 255"
    "insert_behaviour demo_env = Executes"
    by (simp_all add: document_routes_def fees_statement_route_def demo_file_def demo_env_def
        trim_demo)
  from upload_needs_no_student [OF h store, where db = demo_db and anyStudents = "[]"]
  show ?thesis
    by (simp add: trim_demo fees_statement_route_def demo_db_def demo_file_def demo_env_def
        fresh_id_def)
qed

end
